theory Spec2Isabelle
  imports Complex_Main
begin

section \<open>Intensity scaling: \<open>cucim.core.operations.intensity.scaling\<close>\<close>

text \<open>
  A shallow embedding of \<open>scale_intensity_range\<close> (scaling.py, lines 27 to 128).

  Conventions of the model.
  \<^item> A floating-point number (a Python float, an element of an array) is a value of the
    type \<open>flt\<close>: not-a-number, one of the two infinities, or a finite real. The two zeros
    are one value; the function never divides by a zero, the one place where their sign
    would show.
  \<^item> Arithmetic follows IEEE 754: the special cases are written out, and the exact result
    of an operation on finite values is rounded. How a real is rounded to a double
    (\<open>round64\<close>) and to a 32-bit float (\<open>round32\<close>), overflow to an infinity included, is
    a parameter, the record \<open>fpu\<close>; every theorem holds for every rounding.
  \<^item> Arrays live in an explicit store: an address holds one array object, and every library
    call that returns a new array takes the next unused address.
  \<^item> The array libraries (numpy, cupy) are outside the repository. What the function needs
    from them and cannot know (the table of safe casts, the conversion of one element from
    one element type to another, the content of an uninitialised buffer, what the launcher
    does with a grid of width zero) is a parameter, the record \<open>arraylib\<close>; every theorem
    holds for every such library.
  \<^item> An exception is a value \<open>Inl e\<close>. The handler of line 124 to 126 logs the exception and
    raises it again unchanged, so it does not appear in the model.
\<close>

subsection \<open>Data\<close>

type_synonym addr = nat

datatype location = Host | Device
  \<comment> \<open>\<open>numpy.ndarray\<close> is host-resident, \<open>cupy.ndarray\<close> accelerator-resident\<close>

datatype dtype =
  Bool8 | Int8 | UInt8 | Int16 | UInt16 | Int32 | UInt32 | Int64 | UInt64
  | Float16 | Float32 | Float64

datatype flt = NaN | MInf | Fin real | PInf

record ndarray =
  location :: location
  dtype :: dtype
  shape :: "nat list"
  contiguous :: bool
  elems :: "flt list"

record store =
  mem :: "addr \<Rightarrow> ndarray"
  next_addr :: addr

datatype pyobj = Ref addr | PyFloat flt | PyStr string | PyNone
  \<comment> \<open>the argument \<open>img: Any\<close>: a reference to an array object, or something else\<close>

datatype message =
  Same_range    \<comment> \<open>"Original intensity range min and max are same"\<close>
  | Not_an_array  \<comment> \<open>"img must be a cupy.ndarray or numpy.ndarray"\<close>
  | Unsafe_cast   \<comment> \<open>"Cannot safely cast type ... to 'float32'"\<close>

datatype error = ValueError message | TypeError message | ZeroDivisionError | LaunchError

record fpu =
  round64 :: "real \<Rightarrow> flt"
  round32 :: "real \<Rightarrow> flt"

record arraylib =
  can_cast :: "dtype \<Rightarrow> dtype \<Rightarrow> bool"
  convert :: "dtype \<Rightarrow> dtype \<Rightarrow> flt \<Rightarrow> flt"
  uninit :: "nat \<Rightarrow> flt"
  zero_grid :: "error + nat"

subsection \<open>Floating-point arithmetic\<close>

fun fsub :: "(real \<Rightarrow> flt) \<Rightarrow> flt \<Rightarrow> flt \<Rightarrow> flt" where
  "fsub rnd NaN b = NaN"
| "fsub rnd a NaN = NaN"
| "fsub rnd PInf PInf = NaN"
| "fsub rnd MInf MInf = NaN"
| "fsub rnd PInf b = PInf"
| "fsub rnd MInf b = MInf"
| "fsub rnd (Fin u) PInf = MInf"
| "fsub rnd (Fin u) MInf = PInf"
| "fsub rnd (Fin u) (Fin v) = rnd (u - v)"

fun fmul :: "(real \<Rightarrow> flt) \<Rightarrow> flt \<Rightarrow> flt \<Rightarrow> flt" where
  "fmul rnd NaN b = NaN"
| "fmul rnd a NaN = NaN"
| "fmul rnd PInf PInf = PInf"
| "fmul rnd PInf MInf = MInf"
| "fmul rnd MInf PInf = MInf"
| "fmul rnd MInf MInf = PInf"
| "fmul rnd PInf (Fin v) = (if v = 0 then NaN else if 0 < v then PInf else MInf)"
| "fmul rnd MInf (Fin v) = (if v = 0 then NaN else if 0 < v then MInf else PInf)"
| "fmul rnd (Fin u) PInf = (if u = 0 then NaN else if 0 < u then PInf else MInf)"
| "fmul rnd (Fin u) MInf = (if u = 0 then NaN else if 0 < u then MInf else PInf)"
| "fmul rnd (Fin u) (Fin v) = rnd (u * v)"

fun fdiv :: "(real \<Rightarrow> flt) \<Rightarrow> flt \<Rightarrow> flt \<Rightarrow> flt" where
  "fdiv rnd NaN b = NaN"
| "fdiv rnd a NaN = NaN"
| "fdiv rnd PInf PInf = NaN"
| "fdiv rnd PInf MInf = NaN"
| "fdiv rnd MInf PInf = NaN"
| "fdiv rnd MInf MInf = NaN"
| "fdiv rnd PInf (Fin v) = (if 0 \<le> v then PInf else MInf)"
| "fdiv rnd MInf (Fin v) = (if 0 \<le> v then MInf else PInf)"
| "fdiv rnd (Fin u) PInf = Fin 0"
| "fdiv rnd (Fin u) MInf = Fin 0"
| "fdiv rnd (Fin u) (Fin v) = rnd (u / v)"

definition feq :: "flt \<Rightarrow> flt \<Rightarrow> bool" where
  \<comment> \<open>\<open>==\<close> on floats: a not-a-number equals nothing\<close>
  "feq a b = (a \<noteq> NaN \<and> b \<noteq> NaN \<and> a = b)"

fun fle :: "flt \<Rightarrow> flt \<Rightarrow> bool" where
  \<comment> \<open>\<open><=\<close> on floats: false when a side is not a number\<close>
  "fle NaN b = False"
| "fle a NaN = False"
| "fle MInf b = True"
| "fle a PInf = True"
| "fle PInf b = False"
| "fle a MInf = False"
| "fle (Fin u) (Fin v) = (u \<le> v)"

definition py_truediv :: "(real \<Rightarrow> flt) \<Rightarrow> flt \<Rightarrow> flt \<Rightarrow> error + flt" where
  \<comment> \<open>\<open>a / b\<close> on Python floats: a zero divisor raises\<close>
  "py_truediv rnd a b = (if b = Fin 0 then Inl ZeroDivisionError else Inr (fdiv rnd a b))"

definition np_float32 :: "fpu \<Rightarrow> flt \<Rightarrow> flt" where
  \<comment> \<open>\<open>np.float32(v)\<close> of a Python float: rounded, an infinity when it overflows\<close>
  "np_float32 F v = (case v of Fin r \<Rightarrow> round32 F r | _ \<Rightarrow> v)"

definition np_int32 :: "nat \<Rightarrow> int" where
  \<comment> \<open>\<open>np.int32(n)\<close> of the 64-bit integer \<open>n\<close>: the low 32 bits, read as a signed number\<close>
  "np_int32 n = (int n + 2 ^ 31) mod 2 ^ 32 - 2 ^ 31"

subsection \<open>The array library\<close>

definition alloc :: "ndarray \<Rightarrow> store \<Rightarrow> addr \<times> store" where
  "alloc arr s =
     (next_addr s, s\<lparr>mem := (mem s)(next_addr s := arr), next_addr := Suc (next_addr s)\<rparr>)"

definition cast_elems :: "arraylib \<Rightarrow> dtype \<Rightarrow> dtype \<Rightarrow> flt list \<Rightarrow> flt list" where
  "cast_elems L d d' xs = (if d = d' then xs else map (convert L d d') xs)"

definition cupy_asarray :: "arraylib \<Rightarrow> addr \<Rightarrow> dtype \<Rightarrow> store \<Rightarrow> addr \<times> store" where
  \<comment> \<open>\<open>cupy.asarray(img, dtype=d, order='C')\<close> on a host array: a device copy\<close>
  "cupy_asarray L a d s =
     (let src = mem s a in
      alloc \<lparr>location = Device, dtype = d, shape = shape src, contiguous = True,
             elems = cast_elems L (dtype src) d (elems src)\<rparr> s)"

definition cupy_ascontiguousarray :: "addr \<Rightarrow> store \<Rightarrow> addr \<times> store" where
  \<comment> \<open>the array itself when it is contiguous, a contiguous copy otherwise\<close>
  "cupy_ascontiguousarray a s =
     (if contiguous (mem s a) then (a, s) else alloc ((mem s a)\<lparr>contiguous := True\<rparr>) s)"

definition astype :: "arraylib \<Rightarrow> addr \<Rightarrow> dtype \<Rightarrow> store \<Rightarrow> addr \<times> store" where
  \<comment> \<open>\<open>a.astype(d)\<close>: always a new array\<close>
  "astype L a d s =
     (let src = mem s a in
      alloc (src\<lparr>dtype := d, elems := cast_elems L (dtype src) d (elems src)\<rparr>) s)"

definition cupy_empty :: "arraylib \<Rightarrow> nat list \<Rightarrow> dtype \<Rightarrow> store \<Rightarrow> addr \<times> store" where
  "cupy_empty L sh d s =
     alloc \<lparr>location = Device, dtype = d, shape = sh, contiguous = True,
            elems = map (uninit L) [0..<prod_list sh]\<rparr> s"

definition cupy_asnumpy :: "addr \<Rightarrow> store \<Rightarrow> addr \<times> store" where
  "cupy_asnumpy a s = alloc ((mem s a)\<lparr>location := Host, contiguous := True\<rparr>) s"

subsection \<open>The kernel \<open>scaleVolume\<close> and its launch\<close>

definition fminf :: "flt \<Rightarrow> flt \<Rightarrow> flt" where
  "fminf a b = (if a = NaN then b else if b = NaN then a else if fle a b then a else b)"

definition fmaxf :: "flt \<Rightarrow> flt \<Rightarrow> flt" where
  "fmaxf a b = (if a = NaN then b else if b = NaN then a else if fle a b then b else a)"

definition clamp :: "flt \<Rightarrow> flt \<Rightarrow> flt \<Rightarrow> flt" where
  \<comment> \<open>Modelled from the spec: the kernel source \<open>kernel/cuda_kernel_source.py\<close> is missing.
      "Clamp: constrain a value to a closed interval, replacing it with the nearest bound
      if outside", and "every output element lies within [min(b_min,b_max),
      max(b_min,b_max)] inclusive, for all inputs": the minimum with the upper bound, then
      the maximum with the lower one, each keeping the side that is a number.\<close>
  "clamp v lo hi = fmaxf lo (fminf v hi)"

definition scaleVolume_value :: "fpu \<Rightarrow> flt \<Rightarrow> flt \<Rightarrow> flt \<Rightarrow> flt \<Rightarrow> flt \<Rightarrow> flt" where
  \<comment> \<open>Modelled from the spec: the kernel source \<open>kernel/cuda_kernel_source.py\<close> is missing.
      "clamp(in[i]*x - y, lower, upper)" on 32-bit floats: the product is rounded, then the
      difference.\<close>
  "scaleVolume_value F v x y lo hi =
     clamp (fsub (round32 F) (fmul (round32 F) v x) y) lo hi"

definition scaleVolume_thread ::
  "fpu \<Rightarrow> flt list \<Rightarrow> flt \<Rightarrow> flt \<Rightarrow> flt \<Rightarrow> flt \<Rightarrow> int \<Rightarrow> nat \<Rightarrow> flt list \<Rightarrow> flt list" where
  \<comment> \<open>Modelled from the spec: the kernel source \<open>kernel/cuda_kernel_source.py\<close> is missing.
      One thread, of linear index \<open>idx\<close>: "out[i] = clamp(in[i]*x - y, lower, upper)" for
      "every linear index i in [0, total_size)", in 32-bit floats, the kernel consuming
      "x, y, lower, upper, total element count as a 32-bit integer"; "the kernel itself is
      responsible for bounds-checking the tail block".\<close>
  "scaleVolume_thread F inp x y lo hi total_size idx out =
     (if int idx < total_size
      then out[idx := scaleVolume_value F (inp ! idx) x y lo hi]
      else out)"

definition launch_blocks :: "arraylib \<Rightarrow> int \<Rightarrow> error + nat" where
  \<comment> \<open>Modelled from the spec: the launcher, a part of cupy, is outside the source. A grid
      of \<open>gridx\<close> blocks, \<open>gridx\<close> at least 1, is launched as it is. The spec does not say
      what the launcher does with a grid of width zero ("launch failure (e.g. invalid
      geometry) is a fatal configuration error"): that is the library's \<open>zero_grid\<close>, an
      error or the number of blocks it launches instead.\<close>
  "launch_blocks L gridx = (if 1 \<le> gridx then Inr (nat gridx) else zero_grid L)"

definition launch_scaleVolume ::
  "fpu \<Rightarrow> arraylib \<Rightarrow> int \<Rightarrow> nat \<Rightarrow> addr \<Rightarrow> addr \<Rightarrow> flt \<Rightarrow> flt \<Rightarrow> flt \<Rightarrow> flt \<Rightarrow> int \<Rightarrow> store
     \<Rightarrow> (error + unit) \<times> store" where
  \<comment> \<open>Modelled from the spec: "One-dimensional launch" of \<open>gridx\<close> blocks of \<open>blockx\<close>
      threads, each thread running the kernel at its linear index.\<close>
  "launch_scaleVolume F L gridx blockx src dst x y lo hi total_size s =
     (case launch_blocks L gridx of
        Inl e \<Rightarrow> (Inl e, s)
      | Inr blocks \<Rightarrow>
          let out = fold (scaleVolume_thread F (elems (mem s src)) x y lo hi total_size)
                      [0..<blocks * blockx] (elems (mem s dst))
          in (Inr (), s\<lparr>mem := (mem s)(dst := (mem s dst)\<lparr>elems := out\<rparr>)\<rparr>))"

subsection \<open>\<open>scale_intensity_range\<close>\<close>

definition py_int :: "real \<Rightarrow> int" where
  \<comment> \<open>\<open>int(r)\<close> of a float: truncation towards zero\<close>
  "py_int r = (if 0 \<le> r then \<lfloor>r\<rfloor> else \<lceil>r\<rceil>)"

definition np_prod :: "nat list \<Rightarrow> nat" where
  "np_prod sh = prod_list sh"

definition blockx :: nat where
  "blockx = 128"

definition gridx :: "nat \<Rightarrow> int" where
  \<comment> \<open>line 109: \<open>int((total_size - 1) / blockx + 1)\<close>, with Python's true division\<close>
  "gridx total_size = py_int (real_of_int (int total_size - 1) / real blockx + 1)"

definition same_range :: "fpu \<Rightarrow> flt \<Rightarrow> flt \<Rightarrow> bool" where
  \<comment> \<open>line 76: \<open>a_max - a_min == 0.0\<close>\<close>
  "same_range F a_max a_min = feq (fsub (round64 F) a_max a_min) (Fin 0)"

definition scale_x :: "fpu \<Rightarrow> flt \<Rightarrow> flt \<Rightarrow> flt \<Rightarrow> flt \<Rightarrow> error + flt" where
  \<comment> \<open>line 100\<close>
  "scale_x F b_max b_min a_max a_min =
     py_truediv (round64 F) (fsub (round64 F) b_max b_min) (fsub (round64 F) a_max a_min)"

definition scale_y :: "fpu \<Rightarrow> flt \<Rightarrow> flt \<Rightarrow> flt \<Rightarrow> flt" where
  \<comment> \<open>line 101\<close>
  "scale_y F x a_min b_min = fsub (round64 F) (fmul (round64 F) a_min x) b_min"

definition lower :: "bool \<Rightarrow> flt \<Rightarrow> flt" where
  \<comment> \<open>lines 102 and 104: \<open>b_min\<close> after the test of \<open>clip\<close>\<close>
  "lower clip b_min = (if clip = False then MInf else b_min)"

definition upper :: "bool \<Rightarrow> flt \<Rightarrow> flt" where
  \<comment> \<open>lines 102 and 103: \<open>b_max\<close> after the test of \<open>clip\<close>\<close>
  "upper clip b_max = (if clip = False then PInf else b_max)"

definition normalize :: "arraylib \<Rightarrow> pyobj \<Rightarrow> store \<Rightarrow> (error + bool \<times> addr \<times> addr) \<times> store" where
  \<comment> \<open>lines 79 to 87: the result is \<open>(to_cupy, img, cupy_img)\<close>\<close>
  "normalize L img s =
     (case img of
        Ref a \<Rightarrow>
          (if location (mem s a) = Host then
             let (c, s1) = cupy_asarray L a Float32 s in (Inr (True, a, c), s1)
           else
             let (c, s1) = cupy_ascontiguousarray a s in (Inr (False, a, c), s1))
      | _ \<Rightarrow> (Inl (TypeError Not_an_array), s))"

definition to_float32 :: "arraylib \<Rightarrow> addr \<Rightarrow> addr \<Rightarrow> store \<Rightarrow> (error + addr) \<times> store" where
  \<comment> \<open>lines 89 to 96: the result is the new \<open>cupy_img\<close>\<close>
  "to_float32 L img cupy_img s =
     (if dtype (mem s cupy_img) \<noteq> Float32 then
        if can_cast L (dtype (mem s img)) Float32 = False then (Inl (ValueError Unsafe_cast), s)
        else let (c, s1) = astype L cupy_img Float32 s in (Inr c, s1)
      else (Inr cupy_img, s))"

definition dispatch ::
  "fpu \<Rightarrow> arraylib \<Rightarrow> addr \<Rightarrow> addr \<Rightarrow> flt \<Rightarrow> flt \<Rightarrow> flt \<Rightarrow> flt \<Rightarrow> store \<Rightarrow> (error + addr) \<times> store" where
  \<comment> \<open>lines 106 to 116, with \<open>x\<close>, \<open>y\<close>, \<open>b_min\<close> and \<open>b_max\<close> as lines 100 to 104 left them:
      the result is \<open>result\<close>, the buffer the kernel wrote\<close>
  "dispatch F L img cupy_img x y b_min b_max s =
     (let sh = shape (mem s img);
          total_size = np_prod sh;
          (result, s1) = cupy_empty L (shape (mem s img)) (dtype (mem s cupy_img)) s
      in case launch_scaleVolume F L (gridx total_size) blockx cupy_img result
                (np_float32 F x) (np_float32 F y) (np_float32 F b_min) (np_float32 F b_max)
                (np_int32 total_size) s1 of
           (Inl e, s2) \<Rightarrow> (Inl e, s2)
         | (Inr u, s2) \<Rightarrow> (Inr result, s2))"

definition rehydrate :: "arraylib \<Rightarrow> bool \<Rightarrow> addr \<Rightarrow> addr \<Rightarrow> store \<Rightarrow> addr \<times> store" where
  \<comment> \<open>lines 118 to 122\<close>
  "rehydrate L to_cupy img result s =
     (let (r1, s1) = (if dtype (mem s img) \<noteq> Float32 then astype L result (dtype (mem s img)) s
                      else (result, s))
      in if to_cupy = True then cupy_asnumpy r1 s1 else (r1, s1))"

definition scale_intensity_range ::
  "fpu \<Rightarrow> arraylib \<Rightarrow> pyobj \<Rightarrow> flt \<Rightarrow> flt \<Rightarrow> flt \<Rightarrow> flt \<Rightarrow> bool \<Rightarrow> store
     \<Rightarrow> (error + addr) \<times> store" where
  "scale_intensity_range F L img b_max b_min a_max a_min clip s =
     (if same_range F a_max a_min then (Inl (ValueError Same_range), s)
      else
        case normalize L img s of
          (Inl e, s1) \<Rightarrow> (Inl e, s1)
        | (Inr (to_cupy, a, cupy_img), s1) \<Rightarrow>
            (case to_float32 L a cupy_img s1 of
               (Inl e, s2) \<Rightarrow> (Inl e, s2)
             | (Inr c, s2) \<Rightarrow>
                 (case scale_x F b_max b_min a_max a_min of
                    Inl e \<Rightarrow> (Inl e, s2)
                  | Inr x \<Rightarrow>
                      (case dispatch F L a c x (scale_y F x a_min b_min)
                              (lower clip b_min) (upper clip b_max) s2 of
                         (Inl e, s3) \<Rightarrow> (Inl e, s3)
                       | (Inr result, s3) \<Rightarrow>
                           (case rehydrate L to_cupy a result s3 of (r, s4) \<Rightarrow> (Inr r, s4))))))"

subsection \<open>Well-formed inputs\<close>

definition cast_val :: "arraylib \<Rightarrow> dtype \<Rightarrow> dtype \<Rightarrow> flt \<Rightarrow> flt" where
  \<comment> \<open>one element of \<open>cast_elems\<close>\<close>
  "cast_val L d d' v = (if d = d' then v else convert L d d' v)"

definition is_array :: "pyobj \<Rightarrow> bool" where
  \<comment> \<open>\<open>isinstance(img, np.ndarray) or isinstance(img, cupy.ndarray)\<close>\<close>
  "is_array img = (case img of Ref a \<Rightarrow> True | _ \<Rightarrow> False)"

definition allocated :: "store \<Rightarrow> addr \<Rightarrow> bool" where
  \<comment> \<open>the address holds an object that exists before the call\<close>
  "allocated s a = (a < next_addr s)"

definition well_formed :: "ndarray \<Rightarrow> bool" where
  \<comment> \<open>the buffer has as many elements as the shape says\<close>
  "well_formed arr = (length (elems arr) = np_prod (shape arr))"

definition is_float64 :: "fpu \<Rightarrow> flt \<Rightarrow> bool" where
  \<comment> \<open>the value is a double: rounding to a double leaves it as it is\<close>
  "is_float64 F v = (case v of Fin r \<Rightarrow> round64 F r = Fin r | _ \<Rightarrow> True)"

definition is_float32 :: "fpu \<Rightarrow> flt \<Rightarrow> bool" where
  \<comment> \<open>the value is a 32-bit float: rounding to 32 bits leaves it as it is\<close>
  "is_float32 F v = (case v of Fin r \<Rightarrow> round32 F r = Fin r | _ \<Rightarrow> True)"

definition keeps_0_1 :: "fpu \<Rightarrow> bool" where
  \<comment> \<open>zero and one are numbers of both formats: rounding leaves them as they are\<close>
  "keeps_0_1 F =
     (round64 F 0 = Fin 0 \<and> round64 F 1 = Fin 1 \<and> round32 F 0 = Fin 0 \<and> round32 F 1 = Fin 1)"

definition extends :: "store \<Rightarrow> store \<Rightarrow> bool" where
  \<comment> \<open>no object of \<open>s\<close> is changed in \<open>s'\<close>, and no address is given back\<close>
  "extends s s' = (next_addr s \<le> next_addr s' \<and> (\<forall>b<next_addr s. mem s' b = mem s b))"

definition returned_elems :: "(error + addr) \<times> store \<Rightarrow> flt list" where
  \<comment> \<open>the elements of the array a call returned; nothing if it raised\<close>
  "returned_elems c = (case c of (Inr r, s') \<Rightarrow> elems (mem s' r) | (Inl e, s') \<Rightarrow> [])"

subsection \<open>Example inputs\<close>

definition double_0_2 :: real where
  \<comment> \<open>the double nearest to 0.2, what Python reads \<open>0.2\<close> as\<close>
  "double_0_2 = 3602879701896397 / 18014398509481984"

definition float32_0_2 :: real where
  \<comment> \<open>the 32-bit float nearest to 0.2, and to \<open>double_0_2\<close>: 13421773 / 2^26\<close>
  "float32_0_2 = 13421773 / 67108864"

definition overflow :: "nat \<Rightarrow> real \<Rightarrow> flt" where
  \<comment> \<open>a magnitude of \<open>2^e\<close> or more becomes an infinity; a smaller one is kept\<close>
  "overflow e r = (if 2 ^ e \<le> \<bar>r\<bar> then (if 0 < r then PInf else MInf) else Fin r)"

definition example_fpu :: fpu where
  \<comment> \<open>IEEE rounding to the nearest on the values of the examples: those are representable
      and are kept, but for the double nearest to 0.2, which is not a 32-bit float; a
      magnitude of \<open>2^1024\<close> overflows a double and one of \<open>2^128\<close> a 32-bit float\<close>
  "example_fpu =
     \<lparr>round64 = overflow 1024,
      round32 = (\<lambda>r. if r = double_0_2 then Fin float32_0_2 else overflow 128 r)\<rparr>"

definition int_wrap :: "dtype \<Rightarrow> int \<Rightarrow> int" where
  \<comment> \<open>an integer stored in an integer element type keeps its low bits\<close>
  "int_wrap d k =
     (if d = UInt8 then k mod 2 ^ 8
      else if d = UInt16 then k mod 2 ^ 16
      else if d = UInt32 then k mod 2 ^ 32
      else if d = UInt64 then k mod 2 ^ 64
      else if d = Int8 then (k + 2 ^ 7) mod 2 ^ 8 - 2 ^ 7
      else if d = Int16 then (k + 2 ^ 15) mod 2 ^ 16 - 2 ^ 15
      else if d = Int32 then (k + 2 ^ 31) mod 2 ^ 32 - 2 ^ 31
      else (k + 2 ^ 63) mod 2 ^ 64 - 2 ^ 63)"

definition example_lib :: arraylib where
  \<comment> \<open>a library for the examples: numpy's table of the casts into \<open>float32\<close> that are safe;
      a conversion into a float type keeps the value, one into an integer type truncates
      towards zero and keeps the low bits; an uninitialised buffer holds zeros; the
      launcher raises a grid width of zero to one block\<close>
  "example_lib =
     \<lparr>can_cast = (\<lambda>d d'. d' = Float32 \<and> d \<in> set [Bool8, Int8, UInt8, Int16, UInt16, Float16, Float32]),
      convert = (\<lambda>d d' v.
                   if d' \<in> set [Float16, Float32, Float64] then v
                   else case v of
                          Fin r \<Rightarrow> if d' = Bool8 then (if r = 0 then Fin 0 else Fin 1)
                                   else Fin (real_of_int (int_wrap d' (py_int r)))
                        | _ \<Rightarrow> Fin 0),
      uninit = (\<lambda>i. Fin 0),
      zero_grid = Inr 1\<rparr>"

definition strict_lib :: arraylib where
  \<comment> \<open>the same library with a launcher that refuses a grid of width zero\<close>
  "strict_lib = example_lib\<lparr>zero_grid := Inl LaunchError\<rparr>"

definition example_array :: "location \<Rightarrow> dtype \<Rightarrow> ndarray" where
  \<comment> \<open>the scenario of the spec: \<open>img = [0, 128, 255]\<close>\<close>
  "example_array l d =
     \<lparr>location = l, dtype = d, shape = [3], contiguous = True,
      elems = [Fin 0, Fin 128, Fin 255]\<rparr>"

definition empty_array :: ndarray where
  \<comment> \<open>an array of shape \<open>(2, 0, 4)\<close>\<close>
  "empty_array =
     \<lparr>location = Device, dtype = Float32, shape = [2, 0, 4], contiguous = True, elems = []\<rparr>"

definition ones_array :: "nat \<Rightarrow> ndarray" where
  \<comment> \<open>\<open>cupy.ones(n, dtype=float32)\<close>\<close>
  "ones_array n =
     \<lparr>location = Device, dtype = Float32, shape = [n], contiguous = True,
      elems = replicate n (Fin 1)\<rparr>"

definition store_of :: "ndarray \<Rightarrow> store" where
  \<comment> \<open>a store whose only object, at address 0, is the array\<close>
  "store_of arr = \<lparr>mem = (\<lambda>a. arr), next_addr = 1\<rparr>"

section \<open>Launch geometry\<close>

lemma gridx_div: "gridx n = (int n + 127) div 128"
proof (cases n)
  case 0
  then show ?thesis by (simp add: gridx_def blockx_def py_int_def)
next
  case (Suc m)
  have "gridx n = \<lfloor>real m / 128 + 1\<rfloor>"
    using Suc by (simp add: gridx_def blockx_def py_int_def)
  also have "\<dots> = \<lfloor>real m / 128\<rfloor> + 1" by linarith
  also have "\<lfloor>real m / 128\<rfloor> = int m div 128"
    using floor_divide_of_nat_eq[where ?'a=real, of m 128] by simp
  finally show ?thesis using Suc by simp
qed

lemma gridx_cover: "n \<le> nat (gridx n) * blockx"
proof -
  let ?k = "int n + 127"
  have e: "?k div 128 * 128 + ?k mod 128 = ?k" by (rule div_mult_mod_eq)
  have m: "?k mod 128 < 128" by simp
  have q: "0 \<le> ?k div 128" by (simp add: pos_imp_zdiv_nonneg_iff)
  from e m have "int n \<le> ?k div 128 * 128" by linarith
  with q have "int n \<le> int (nat (?k div 128) * 128)" by simp
  then show ?thesis unfolding gridx_div blockx_def by linarith
qed

lemma gridx_nonpos_iff: "gridx n \<le> 0 \<longleftrightarrow> n = 0"
proof -
  let ?k = "int n + 127"
  have e: "?k div 128 * 128 + ?k mod 128 = ?k" by (rule div_mult_mod_eq)
  have m: "?k mod 128 < 128" "0 \<le> ?k mod 128" by simp_all
  show ?thesis unfolding gridx_div using e m by (cases "n = 0") auto
qed

lemma gridx_ceiling: "gridx n = \<lceil>real n / 128\<rceil>"
proof -
  have "\<lceil>real n / 128\<rceil> = - \<lfloor>real_of_int (- int n) / real_of_int 128\<rfloor>"
    by (simp add: ceiling_def)
  also have "\<dots> = - ((- int n) div 128)"
    by (simp only: floor_divide_of_int_eq)
  also have "\<dots> = (int n + 127) div 128"
  proof -
    let ?k = "int n + 127"
    have e: "?k div 128 * 128 + ?k mod 128 = ?k" by (rule div_mult_mod_eq)
    have m: "?k mod 128 < 128" "0 \<le> ?k mod 128" by simp_all
    have e': "(- int n) div 128 * 128 + (- int n) mod 128 = - int n" by (rule div_mult_mod_eq)
    have m': "(- int n) mod 128 < 128" "0 \<le> (- int n) mod 128" by simp_all
    from e m e' m' show ?thesis by linarith
  qed
  finally show ?thesis by (simp add: gridx_div)
qed

lemma fold_threads:
  "length out = n \<Longrightarrow>
   fold (scaleVolume_thread F inp x y lo hi t) [0..<m] out =
     map (\<lambda>i. if i < m \<and> int i < t then scaleVolume_value F (inp ! i) x y lo hi else out ! i)
       [0..<n]"
proof (induction m)
  case 0
  then show ?case by (auto simp: list_eq_iff_nth_eq)
next
  case (Suc m)
  let ?g = "\<lambda>k i. if i < k \<and> int i < t then scaleVolume_value F (inp ! i) x y lo hi else out ! i"
  have "fold (scaleVolume_thread F inp x y lo hi t) [0..<Suc m] out =
          scaleVolume_thread F inp x y lo hi t m (map (?g m) [0..<n])"
    using Suc by simp
  also have "\<dots> = map (?g (Suc m)) [0..<n]"
  proof (rule nth_equalityI)
    show "length (scaleVolume_thread F inp x y lo hi t m (map (?g m) [0..<n])) =
          length (map (?g (Suc m)) [0..<n])"
      by (simp add: scaleVolume_thread_def)
  next
    fix i
    assume "i < length (scaleVolume_thread F inp x y lo hi t m (map (?g m) [0..<n]))"
    then have i: "i < n" by (simp add: scaleVolume_thread_def split: if_splits)
    show "scaleVolume_thread F inp x y lo hi t m (map (?g m) [0..<n]) ! i =
          map (?g (Suc m)) [0..<n] ! i"
    proof (cases "i = m")
      case True
      with i show ?thesis by (simp add: scaleVolume_thread_def)
    next
      case False
      with i show ?thesis by (simp add: scaleVolume_thread_def less_Suc_eq)
    qed
  qed
  finally show ?case .
qed

lemma launch_blocks_pos: "0 < n \<Longrightarrow> launch_blocks L (gridx n) = Inr (nat (gridx n))"
  using gridx_nonpos_iff [of n] by (simp add: launch_blocks_def)

lemma launch_blocks_zero: "launch_blocks L (gridx 0) = zero_grid L"
  using gridx_nonpos_iff [of 0] by (simp add: launch_blocks_def)

lemma launch_refused:
  "launch_blocks L g = Inl e \<Longrightarrow>
     launch_scaleVolume F L g bx src dst x y lo hi t s = (Inl e, s)"
  by (simp add: launch_scaleVolume_def)

lemma launch_gridx:
  assumes "launch_blocks L (gridx n) = Inr k" and "length (elems (mem s dst)) = n"
  shows "launch_scaleVolume F L (gridx n) blockx src dst x y lo hi t s =
           (Inr (), s\<lparr>mem := (mem s)(dst := (mem s dst)
              \<lparr>elems := map (\<lambda>i. if int i < t
                                  then scaleVolume_value F (elems (mem s src) ! i) x y lo hi
                                  else elems (mem s dst) ! i) [0..<n]\<rparr>)\<rparr>)"
proof -
  have c: "i < k * blockx" if "i < n" for i
  proof -
    from that have "0 < n" by simp
    then have "k = nat (gridx n)" using assms(1) by (simp add: launch_blocks_pos)
    with gridx_cover [of n] that show ?thesis by simp
  qed
  have "fold (scaleVolume_thread F (elems (mem s src)) x y lo hi t)
          [0..<k * blockx] (elems (mem s dst)) =
        map (\<lambda>i. if int i < t then scaleVolume_value F (elems (mem s src) ! i) x y lo hi
                  else elems (mem s dst) ! i) [0..<n]"
    unfolding fold_threads [OF assms(2)] using c by (intro map_cong) auto
  then show ?thesis using assms(1) by (simp add: launch_scaleVolume_def Let_def)
qed

section \<open>The store and the stages of the function\<close>

lemma extends_refl: "extends s s"
  by (simp add: extends_def)

lemma extends_trans: "extends s s1 \<Longrightarrow> extends s1 s2 \<Longrightarrow> extends s s2"
  by (auto simp: extends_def)

lemma extends_le: "extends s s' \<Longrightarrow> next_addr s \<le> next_addr s'"
  by (simp add: extends_def)

lemma extends_mem: "extends s s' \<Longrightarrow> a < next_addr s \<Longrightarrow> mem s' a = mem s a"
  by (simp add: extends_def)

lemma alloc_eq:
  "alloc arr s = (r, s') \<Longrightarrow>
     r = next_addr s \<and> next_addr s' = Suc (next_addr s) \<and> mem s' = (mem s)(next_addr s := arr)"
  by (auto simp: alloc_def)

lemma alloc_extends: "alloc arr s = (r, s') \<Longrightarrow> extends s s'"
  by (auto simp: alloc_def extends_def)

lemma alloc_new: "alloc arr s = (r, s') \<Longrightarrow> mem s' r = arr \<and> next_addr s \<le> r \<and> r < next_addr s'"
  by (auto simp: alloc_def)

lemma cast_elems_map: "cast_elems L d d' xs = map (cast_val L d d') xs"
  by (cases "d = d'") (simp_all add: cast_elems_def cast_val_def [abs_def])

lemma cast_elems_same: "cast_elems L d d xs = xs"
  by (simp add: cast_elems_def)

lemma normalize_not_array:
  "(\<forall>a. img \<noteq> Ref a) \<Longrightarrow> normalize L img s = (Inl (TypeError Not_an_array), s)"
  by (cases img) (simp_all add: normalize_def)

lemma normalize_extends: "normalize L img s = (res, s1) \<Longrightarrow> extends s s1"
  by (cases img)
     (auto simp: normalize_def cupy_asarray_def cupy_ascontiguousarray_def Let_def
           extends_refl split: if_splits prod.splits dest: alloc_extends)

lemma normalize_Ref:
  assumes "a < next_addr s"
  obtains c s1 where
    "normalize L (Ref a) s = (Inr (location (mem s a) = Host, a, c), s1)"
    "extends s s1" "c < next_addr s1"
    "shape (mem s1 c) = shape (mem s a)"
    "location (mem s1 c) = Device"
    "dtype (mem s1 c) = (if location (mem s a) = Host then Float32 else dtype (mem s a))"
    "elems (mem s1 c) =
       (if location (mem s a) = Host then cast_elems L (dtype (mem s a)) Float32 (elems (mem s a))
        else elems (mem s a))"
proof (cases "normalize L (Ref a) s")
  case (Pair res s1)
  have ext: "extends s s1" using Pair by (rule normalize_extends)
  show ?thesis
  proof (cases "location (mem s a)")
    case Host
    with Pair assms that [of "next_addr s" s1] ext show ?thesis
      by (auto simp: normalize_def cupy_asarray_def alloc_def Let_def)
  next
    case Device
    show ?thesis
    proof (cases "contiguous (mem s a)")
      case True
      with Device Pair assms that [of a s1] ext show ?thesis
        by (auto simp: normalize_def cupy_ascontiguousarray_def)
    next
      case False
      with Device Pair assms that [of "next_addr s" s1] ext show ?thesis
        by (auto simp: normalize_def cupy_ascontiguousarray_def alloc_def)
    qed
  qed
qed

lemma to_float32_extends: "to_float32 L a c s = (res, s1) \<Longrightarrow> extends s s1"
  by (auto simp: to_float32_def astype_def Let_def extends_refl
           split: if_splits prod.splits dest: alloc_extends)

lemma to_float32_unsafe:
  "dtype (mem s c) \<noteq> Float32 \<Longrightarrow> can_cast L (dtype (mem s a)) Float32 = False \<Longrightarrow>
     to_float32 L a c s = (Inl (ValueError Unsafe_cast), s)"
  by (simp add: to_float32_def)

lemma to_float32_ok:
  assumes "c < next_addr s"
    and "dtype (mem s c) = Float32 \<or> can_cast L (dtype (mem s a)) Float32"
  obtains c' s1 where
    "to_float32 L a c s = (Inr c', s1)"
    "extends s s1" "c' < next_addr s1"
    "shape (mem s1 c') = shape (mem s c)"
    "location (mem s1 c') = location (mem s c)"
    "dtype (mem s1 c') = Float32"
    "elems (mem s1 c') = cast_elems L (dtype (mem s c)) Float32 (elems (mem s c))"
proof (cases "dtype (mem s c) = Float32")
  case True
  with assms that [of c s] show ?thesis
    by (simp add: to_float32_def extends_refl cast_elems_same)
next
  case False
  obtain s1 where s1: "to_float32 L a c s = (Inr (next_addr s), s1)"
    using False assms(2) by (auto simp: to_float32_def astype_def alloc_def Let_def)
  have ext: "extends s s1" using s1 by (rule to_float32_extends)
  from s1 False assms that [of "next_addr s" s1] ext show ?thesis
    by (auto simp: to_float32_def astype_def alloc_def Let_def)
qed

lemma rehydrate_extends: "rehydrate L t a r s = (r', s1) \<Longrightarrow> extends s s1"
  by (auto simp: rehydrate_def astype_def cupy_asnumpy_def alloc_def Let_def extends_def
           split: if_splits prod.splits)

lemma rehydrate_result:
  assumes "a < next_addr s" and "r < next_addr s" and "dtype (mem s r) = Float32"
  obtains r' s1 where
    "rehydrate L t a r s = (r', s1)"
    "extends s s1" "r \<le> r'" "r' < next_addr s1"
    "shape (mem s1 r') = shape (mem s r)"
    "location (mem s1 r') = (if t then Host else location (mem s r))"
    "dtype (mem s1 r') = dtype (mem s a)"
    "elems (mem s1 r') = cast_elems L Float32 (dtype (mem s a)) (elems (mem s r))"
proof (cases "rehydrate L t a r s")
  case (Pair r' s1)
  have ext: "extends s s1" using Pair by (rule rehydrate_extends)
  from Pair assms that [of r' s1] ext show ?thesis
    by (auto simp: rehydrate_def astype_def cupy_asnumpy_def alloc_def Let_def cast_elems_same
             split: if_splits)
qed

lemma rehydrate_fresh:
  "rehydrate L t a r s = (r', s1) \<Longrightarrow> r < next_addr s \<Longrightarrow> r \<le> r' \<and> r' < next_addr s1"
  by (auto simp: rehydrate_def astype_def cupy_asnumpy_def alloc_def Let_def
           split: if_splits prod.splits)

lemma dispatch_extends: "dispatch F L a c x y lo hi s = (res, s1) \<Longrightarrow> extends s s1"
  by (auto simp: dispatch_def cupy_empty_def alloc_def launch_scaleVolume_def Let_def
           extends_def split: if_splits prod.splits sum.splits)

lemma dispatch_fresh:
  "dispatch F L a c x y lo hi s = (Inr r, s1) \<Longrightarrow> next_addr s \<le> r \<and> r < next_addr s1"
  by (auto simp: dispatch_def cupy_empty_def alloc_def launch_scaleVolume_def Let_def
           split: if_splits prod.splits sum.splits)

lemma dispatch_refused:
  "launch_blocks L (gridx (np_prod (shape (mem s a)))) = Inl e \<Longrightarrow>
     fst (dispatch F L a c x y lo hi s) = Inl e"
  by (simp add: dispatch_def Let_def launch_refused split: prod.splits)

lemma dispatch_ok:
  assumes "c < next_addr s"
    and "launch_blocks L (gridx (np_prod (shape (mem s a)))) = Inr k"
  obtains r s1 where
    "dispatch F L a c x y lo hi s = (Inr r, s1)"
    "extends s s1" "next_addr s \<le> r" "r < next_addr s1"
    "shape (mem s1 r) = shape (mem s a)"
    "location (mem s1 r) = Device"
    "dtype (mem s1 r) = dtype (mem s c)"
    "elems (mem s1 r) =
       map (\<lambda>i. if int i < np_int32 (np_prod (shape (mem s a)))
                 then scaleVolume_value F (elems (mem s c) ! i) (np_float32 F x) (np_float32 F y)
                        (np_float32 F lo) (np_float32 F hi)
                 else uninit L i)
         [0..<np_prod (shape (mem s a))]"
proof -
  let ?t = "np_prod (shape (mem s a))"
  obtain r s0 where e: "cupy_empty L (shape (mem s a)) (dtype (mem s c)) s = (r, s0)"
    by (cases "cupy_empty L (shape (mem s a)) (dtype (mem s c)) s")
  then have r: "r = next_addr s" and n0: "next_addr s0 = Suc (next_addr s)"
    and m0: "mem s0 = (mem s)(next_addr s :=
               \<lparr>location = Device, dtype = dtype (mem s c), shape = shape (mem s a),
                contiguous = True, elems = map (uninit L) [0..<prod_list (shape (mem s a))]\<rparr>)"
    by (auto simp: cupy_empty_def alloc_def)
  have len: "length (elems (mem s0 r)) = ?t" by (simp add: m0 r np_prod_def)
  have ne: "c \<noteq> next_addr s" using assms(1) by simp
  have old: "elems (mem s0 r) ! i = uninit L i" if "i < ?t" for i
    using that by (simp add: m0 r np_prod_def)
  let ?v = "\<lambda>i. scaleVolume_value F (elems (mem s0 c) ! i) (np_float32 F x) (np_float32 F y)
                   (np_float32 F lo) (np_float32 F hi)"
  have eq: "map (\<lambda>i. if int i < np_int32 ?t then ?v i else elems (mem s0 r) ! i) [0..<?t] =
            map (\<lambda>i. if int i < np_int32 ?t then ?v i else uninit L i) [0..<?t]"
    using old by (intro map_cong) auto
  let ?s1 = "s0\<lparr>mem := (mem s0)(r := (mem s0 r)
                \<lparr>elems := map (\<lambda>i. if int i < np_int32 ?t then ?v i else uninit L i) [0..<?t]\<rparr>)\<rparr>"
  have d: "dispatch F L a c x y lo hi s = (Inr r, ?s1)"
    using e launch_gridx [OF assms(2) len, of F c "np_float32 F x" "np_float32 F y"
                            "np_float32 F lo" "np_float32 F hi" "np_int32 ?t"] eq
    by (simp add: dispatch_def Let_def)
  have ext: "extends s ?s1" using d by (rule dispatch_extends)
  show ?thesis
    using that [of r ?s1] d ext ne by (simp add: r n0 m0)
qed

lemma feq_zero: "feq d (Fin 0) \<longleftrightarrow> d = Fin 0"
  by (auto simp: feq_def)

lemma scale_x_ok:
  "\<not> same_range F a_max a_min \<Longrightarrow>
     scale_x F b_max b_min a_max a_min =
       Inr (fdiv (round64 F) (fsub (round64 F) b_max b_min) (fsub (round64 F) a_max a_min))"
  by (simp add: scale_x_def py_truediv_def same_range_def feq_zero)

lemma sir_same_range:
  "same_range F a_max a_min \<Longrightarrow>
     scale_intensity_range F L img b_max b_min a_max a_min clip s =
       (Inl (ValueError Same_range), s)"
  by (simp add: scale_intensity_range_def)

lemma sir_not_array:
  "\<not> same_range F a_max a_min \<Longrightarrow> (\<forall>a. img \<noteq> Ref a) \<Longrightarrow>
     scale_intensity_range F L img b_max b_min a_max a_min clip s =
       (Inl (TypeError Not_an_array), s)"
  by (simp add: scale_intensity_range_def normalize_not_array)

lemma sir_extends:
  assumes "scale_intensity_range F L img b_max b_min a_max a_min clip s = (res, s')"
  shows "extends s s'"
  using assms
  by (auto simp: scale_intensity_range_def extends_refl
           split: if_splits prod.splits sum.splits
           dest!: normalize_extends to_float32_extends dispatch_extends rehydrate_extends
           intro: extends_trans)

lemma sir_fresh:
  assumes "scale_intensity_range F L img b_max b_min a_max a_min clip s = (Inr r, s')"
  shows "next_addr s \<le> r \<and> r < next_addr s'"
proof -
  from assms obtain t a c s1 c' s2 x r0 s3 where
    n: "normalize L img s = (Inr (t, a, c), s1)" and
    f: "to_float32 L a c s1 = (Inr c', s2)" and
    d: "dispatch F L a c' x (scale_y F x a_min b_min)
          (lower clip b_min) (upper clip b_max) s2 = (Inr r0, s3)" and
    h: "rehydrate L t a r0 s3 = (r, s')"
    by (auto simp: scale_intensity_range_def split: if_splits prod.splits sum.splits)
  have "next_addr s \<le> next_addr s2"
    using normalize_extends [OF n] to_float32_extends [OF f] by (simp add: extends_def)
  moreover have "next_addr s2 \<le> r0 \<and> r0 < next_addr s3" using d by (rule dispatch_fresh)
  moreover have "r0 \<le> r \<and> r < next_addr s'" using h calculation(2) by (simp add: rehydrate_fresh)
  ultimately show ?thesis by simp
qed

lemma sir_unsafe_cast:
  assumes "a < next_addr s" and "\<not> same_range F a_max a_min"
    and "location (mem s a) = Device" and "dtype (mem s a) \<noteq> Float32"
    and "can_cast L (dtype (mem s a)) Float32 = False"
  shows "scale_intensity_range F L (Ref a) b_max b_min a_max a_min clip s =
           (Inl (ValueError Unsafe_cast), snd (cupy_ascontiguousarray a s))"
proof -
  obtain c s1 where
    n: "normalize L (Ref a) s = (Inr (location (mem s a) = Host, a, c), s1)" and
    e: "extends s s1" and
    dt: "dtype (mem s1 c) = (if location (mem s a) = Host then Float32 else dtype (mem s a))"
    using normalize_Ref [OF assms(1), of L] by blast
  have s1: "s1 = snd (cupy_ascontiguousarray a s)"
    using n assms(3) by (auto simp: normalize_def split: prod.splits)
  have "mem s1 a = mem s a" using e assms(1) by (rule extends_mem)
  then have "to_float32 L a c s1 = (Inl (ValueError Unsafe_cast), s1)"
    using assms(3,4,5) dt by (simp add: to_float32_unsafe)
  then show ?thesis using n assms(2) s1 by (simp add: scale_intensity_range_def)
qed

lemma sir_accept:
  assumes "a < next_addr s" and "\<not> same_range F a_max a_min"
    and "location (mem s a) = Host \<or> dtype (mem s a) = Float32
           \<or> can_cast L (dtype (mem s a)) Float32"
    and "x = fdiv (round64 F) (fsub (round64 F) b_max b_min) (fsub (round64 F) a_max a_min)"
  obtains c s2 where
    "scale_intensity_range F L (Ref a) b_max b_min a_max a_min clip s =
       (case dispatch F L a c x (scale_y F x a_min b_min)
               (lower clip b_min) (upper clip b_max) s2 of
          (Inl e, s3) \<Rightarrow> (Inl e, s3)
        | (Inr result, s3) \<Rightarrow>
            (case rehydrate L (location (mem s a) = Host) a result s3 of (r, s4) \<Rightarrow> (Inr r, s4)))"
    "extends s s2" "c < next_addr s2"
    "dtype (mem s2 c) = Float32"
    "elems (mem s2 c) = cast_elems L (dtype (mem s a)) Float32 (elems (mem s a))"
proof -
  obtain c s1 where
    n: "normalize L (Ref a) s = (Inr (location (mem s a) = Host, a, c), s1)" and
    e1: "extends s s1" and c1: "c < next_addr s1" and
    dt: "dtype (mem s1 c) = (if location (mem s a) = Host then Float32 else dtype (mem s a))" and
    el: "elems (mem s1 c) =
       (if location (mem s a) = Host then cast_elems L (dtype (mem s a)) Float32 (elems (mem s a))
        else elems (mem s a))"
    using normalize_Ref [OF assms(1), of L] by blast
  have a1: "mem s1 a = mem s a" using e1 assms(1) by (rule extends_mem)
  have ok: "dtype (mem s1 c) = Float32 \<or> can_cast L (dtype (mem s1 a)) Float32"
    using assms(3) dt a1 by auto
  obtain c' s2 where
    f: "to_float32 L a c s1 = (Inr c', s2)" and
    e2: "extends s1 s2" and c2: "c' < next_addr s2" and
    dt2: "dtype (mem s2 c') = Float32" and
    el2: "elems (mem s2 c') = cast_elems L (dtype (mem s1 c)) Float32 (elems (mem s1 c))"
    using to_float32_ok [OF c1 ok] by blast
  have el3: "elems (mem s2 c') = cast_elems L (dtype (mem s a)) Float32 (elems (mem s a))"
    using el2 dt el by (simp add: cast_elems_same)
  have x: "scale_x F b_max b_min a_max a_min = Inr x"
    using scale_x_ok [OF assms(2)] assms(4) by simp
  show ?thesis
    using that [of c' s2] n f x assms(2) extends_trans [OF e1 e2] c2 dt2 el3
    by (simp add: scale_intensity_range_def)
qed

lemma sir_refused:
  assumes "a < next_addr s" and "\<not> same_range F a_max a_min"
    and "location (mem s a) = Host \<or> dtype (mem s a) = Float32
           \<or> can_cast L (dtype (mem s a)) Float32"
    and "launch_blocks L (gridx (np_prod (shape (mem s a)))) = Inl e"
  shows "fst (scale_intensity_range F L (Ref a) b_max b_min a_max a_min clip s) = Inl e"
proof -
  define x where
    "x = fdiv (round64 F) (fsub (round64 F) b_max b_min) (fsub (round64 F) a_max a_min)"
  obtain c s2 where
    eq: "scale_intensity_range F L (Ref a) b_max b_min a_max a_min clip s =
       (case dispatch F L a c x (scale_y F x a_min b_min)
               (lower clip b_min) (upper clip b_max) s2 of
          (Inl e, s3) \<Rightarrow> (Inl e, s3)
        | (Inr result, s3) \<Rightarrow>
            (case rehydrate L (location (mem s a) = Host) a result s3 of (r, s4) \<Rightarrow> (Inr r, s4)))"
    and e: "extends s s2"
    using sir_accept [OF assms(1,2,3) x_def, of clip] by blast
  have "mem s2 a = mem s a" using e assms(1) by (rule extends_mem)
  then have "fst (dispatch F L a c x (scale_y F x a_min b_min)
               (lower clip b_min) (upper clip b_max) s2) = Inl e"
    using assms(4) by (simp add: dispatch_refused)
  then obtain s3 where
    "dispatch F L a c x (scale_y F x a_min b_min)
       (lower clip b_min) (upper clip b_max) s2 = (Inl e, s3)"
    by (metis fst_conv surj_pair)
  then show ?thesis unfolding eq by simp
qed

lemma sir_accepted:
  assumes "scale_intensity_range F L (Ref a) b_max b_min a_max a_min clip s = (Inr r, s')"
    and "a < next_addr s"
  shows "\<not> same_range F a_max a_min"
    and "location (mem s a) = Host \<or> dtype (mem s a) = Float32
           \<or> can_cast L (dtype (mem s a)) Float32"
    and "\<exists>k. launch_blocks L (gridx (np_prod (shape (mem s a)))) = Inr k"
proof -
  show r: "\<not> same_range F a_max a_min"
    using assms(1) sir_same_range [of F a_max a_min L "Ref a" b_max b_min clip s] by auto
  show c: "location (mem s a) = Host \<or> dtype (mem s a) = Float32
              \<or> can_cast L (dtype (mem s a)) Float32"
  proof (rule ccontr)
    assume n: "\<not> ?thesis"
    then have "location (mem s a) = Device" by (cases "location (mem s a)") simp_all
    with n assms(1) sir_unsafe_cast [OF assms(2) r, of L b_max b_min clip] show False by simp
  qed
  show "\<exists>k. launch_blocks L (gridx (np_prod (shape (mem s a)))) = Inr k"
  proof (cases "launch_blocks L (gridx (np_prod (shape (mem s a))))")
    case (Inl e)
    from sir_refused [OF assms(2) r c Inl, of b_max b_min clip] assms(1) show ?thesis by simp
  next
    case (Inr k)
    then show ?thesis by blast
  qed
qed

lemma sir_succeeds:
  assumes "a < next_addr s" and "\<not> same_range F a_max a_min"
    and "location (mem s a) = Host \<or> dtype (mem s a) = Float32
           \<or> can_cast L (dtype (mem s a)) Float32"
    and "launch_blocks L (gridx (np_prod (shape (mem s a)))) = Inr k"
  obtains r s' where
    "scale_intensity_range F L (Ref a) b_max b_min a_max a_min clip s = (Inr r, s')"
proof -
  define x where
    "x = fdiv (round64 F) (fsub (round64 F) b_max b_min) (fsub (round64 F) a_max a_min)"
  let ?y = "scale_y F x a_min b_min"
  obtain c s2 where
    eq: "scale_intensity_range F L (Ref a) b_max b_min a_max a_min clip s =
       (case dispatch F L a c x ?y (lower clip b_min) (upper clip b_max) s2 of
          (Inl e, s3) \<Rightarrow> (Inl e, s3)
        | (Inr result, s3) \<Rightarrow>
            (case rehydrate L (location (mem s a) = Host) a result s3 of (r, s4) \<Rightarrow> (Inr r, s4)))"
    and e2: "extends s s2" and c2: "c < next_addr s2"
    using sir_accept [OF assms(1,2,3) x_def, of clip] by blast
  have a2: "mem s2 a = mem s a" using e2 assms(1) by (rule extends_mem)
  have lb: "launch_blocks L (gridx (np_prod (shape (mem s2 a)))) = Inr k"
    using assms(4) a2 by simp
  obtain r0 s3 where
    d: "dispatch F L a c x ?y (lower clip b_min) (upper clip b_max) s2 = (Inr r0, s3)"
    using dispatch_ok [OF c2 lb, of F x ?y "lower clip b_min" "upper clip b_max"] by blast
  obtain r s4 where h: "rehydrate L (location (mem s a) = Host) a r0 s3 = (r, s4)"
    by (cases "rehydrate L (location (mem s a) = Host) a r0 s3")
  have "scale_intensity_range F L (Ref a) b_max b_min a_max a_min clip s = (Inr r, s4)"
    using eq d h by simp
  then show ?thesis by (rule that)
qed

lemma sir_stages:
  assumes "scale_intensity_range F L (Ref a) b_max b_min a_max a_min clip s = (Inr r, s')"
    and "a < next_addr s"
    and "x = fdiv (round64 F) (fsub (round64 F) b_max b_min) (fsub (round64 F) a_max a_min)"
  obtains c s2 r0 s3 where
    "dispatch F L a c x (scale_y F x a_min b_min) (lower clip b_min) (upper clip b_max) s2
       = (Inr r0, s3)"
    "rehydrate L (location (mem s a) = Host) a r0 s3 = (r, s')"
    "dtype (mem s2 c) = Float32"
    "elems (mem s2 c) = cast_elems L (dtype (mem s a)) Float32 (elems (mem s a))"
    "elems (mem s3 r0) =
       map (\<lambda>i. if int i < np_int32 (np_prod (shape (mem s a)))
                 then scaleVolume_value F (elems (mem s2 c) ! i)
                        (np_float32 F x) (np_float32 F (scale_y F x a_min b_min))
                        (np_float32 F (lower clip b_min)) (np_float32 F (upper clip b_max))
                 else uninit L i)
         [0..<np_prod (shape (mem s a))]"
    "shape (mem s' r) = shape (mem s a)"
    "location (mem s' r) = location (mem s a)"
    "dtype (mem s' r) = dtype (mem s a)"
    "elems (mem s' r) = cast_elems L Float32 (dtype (mem s a)) (elems (mem s3 r0))"
proof -
  let ?y = "scale_y F x a_min b_min"
  from sir_accepted [OF assms(1,2)] obtain k where
    c: "\<not> same_range F a_max a_min"
       "location (mem s a) = Host \<or> dtype (mem s a) = Float32
          \<or> can_cast L (dtype (mem s a)) Float32"
       "launch_blocks L (gridx (np_prod (shape (mem s a)))) = Inr k"
    by blast
  obtain c s2 where
    eq: "scale_intensity_range F L (Ref a) b_max b_min a_max a_min clip s =
       (case dispatch F L a c x ?y (lower clip b_min) (upper clip b_max) s2 of
          (Inl e, s3) \<Rightarrow> (Inl e, s3)
        | (Inr result, s3) \<Rightarrow>
            (case rehydrate L (location (mem s a) = Host) a result s3 of (r, s4) \<Rightarrow> (Inr r, s4)))"
    and e2: "extends s s2" and c2: "c < next_addr s2"
    and dt2: "dtype (mem s2 c) = Float32"
    and el2: "elems (mem s2 c) = cast_elems L (dtype (mem s a)) Float32 (elems (mem s a))"
    using sir_accept [OF assms(2) c(1,2) assms(3), of clip] by blast
  have a2: "mem s2 a = mem s a" using e2 assms(2) by (rule extends_mem)
  have an2: "a < next_addr s2" using e2 assms(2) by (simp add: extends_def)
  have lb: "launch_blocks L (gridx (np_prod (shape (mem s2 a)))) = Inr k"
    using c(3) a2 by simp
  obtain r0 s3 where
    d: "dispatch F L a c x ?y (lower clip b_min) (upper clip b_max) s2 = (Inr r0, s3)" and
    e3: "extends s2 s3" and r3: "r0 < next_addr s3" and
    sh3: "shape (mem s3 r0) = shape (mem s2 a)" and
    lo3: "location (mem s3 r0) = Device" and
    dt3: "dtype (mem s3 r0) = dtype (mem s2 c)" and
    el3: "elems (mem s3 r0) =
       map (\<lambda>i. if int i < np_int32 (np_prod (shape (mem s2 a)))
                 then scaleVolume_value F (elems (mem s2 c) ! i)
                        (np_float32 F x) (np_float32 F ?y)
                        (np_float32 F (lower clip b_min)) (np_float32 F (upper clip b_max))
                 else uninit L i)
         [0..<np_prod (shape (mem s2 a))]"
    using dispatch_ok [OF c2 lb, of F x ?y "lower clip b_min" "upper clip b_max"] by blast
  have a3: "mem s3 a = mem s a" using extends_mem [OF e3 an2] a2 by simp
  have an3: "a < next_addr s3" using e3 an2 by (simp add: extends_def)
  have f3: "dtype (mem s3 r0) = Float32" using dt3 dt2 by simp
  obtain r4 s4 where
    h: "rehydrate L (location (mem s a) = Host) a r0 s3 = (r4, s4)" and
    sh4: "shape (mem s4 r4) = shape (mem s3 r0)" and
    lo4: "location (mem s4 r4) = (if location (mem s a) = Host then Host else location (mem s3 r0))" and
    dt4: "dtype (mem s4 r4) = dtype (mem s3 a)" and
    el4: "elems (mem s4 r4) = cast_elems L Float32 (dtype (mem s3 a)) (elems (mem s3 r0))"
    using rehydrate_result [OF an3 r3 f3, of L "location (mem s a) = Host"] by blast
  have "scale_intensity_range F L (Ref a) b_max b_min a_max a_min clip s = (Inr r4, s4)"
    using eq d h by simp
  with assms(1) have id: "r4 = r" "s4 = s'" by simp_all
  have h': "rehydrate L (location (mem s a) = Host) a r0 s3 = (r, s')" using h id by simp
  have el3': "elems (mem s3 r0) =
       map (\<lambda>i. if int i < np_int32 (np_prod (shape (mem s a)))
                 then scaleVolume_value F (elems (mem s2 c) ! i)
                        (np_float32 F x) (np_float32 F ?y)
                        (np_float32 F (lower clip b_min)) (np_float32 F (upper clip b_max))
                 else uninit L i)
         [0..<np_prod (shape (mem s a))]"
    using el3 a2 by simp
  have sh: "shape (mem s' r) = shape (mem s a)" using sh4 sh3 a2 id by simp
  have loc: "location (mem s' r) = location (mem s a)"
    using lo4 lo3 id by (cases "location (mem s a)") simp_all
  have dt: "dtype (mem s' r) = dtype (mem s a)" using dt4 a3 id by simp
  have el: "elems (mem s' r) = cast_elems L Float32 (dtype (mem s a)) (elems (mem s3 r0))"
    using el4 a3 id by simp
  show ?thesis by (rule that [OF d h' dt2 el2 el3' sh loc dt el])
qed

section \<open>Arithmetic and the kernel\<close>

lemma clamp_between:
  assumes "lo \<noteq> NaN" and "hi \<noteq> NaN"
  shows "fle (fminf lo hi) (clamp v lo hi) \<and> fle (clamp v lo hi) (fmaxf lo hi)"
  using assms
  by (cases lo; cases hi; cases v) (auto simp: clamp_def fminf_def fmaxf_def)

lemma clamp_unbounded: "v \<noteq> NaN \<Longrightarrow> clamp v MInf PInf = v"
  by (cases v) (auto simp: clamp_def fminf_def fmaxf_def)

lemma np_int32_small: "n < 2 ^ 31 \<Longrightarrow> np_int32 n = int n"
proof -
  assume "n < 2 ^ 31"
  then have "int n < 2 ^ 31" by (metis of_nat_less_iff of_nat_numeral of_nat_power)
  then have "(int n + 2 ^ 31) mod 2 ^ 32 = int n + 2 ^ 31"
    by (intro mod_pos_pos_trivial) simp_all
  then show ?thesis by (simp add: np_int32_def)
qed

lemma np_int32_wraps: "np_int32 (2 ^ 31) = - (2 ^ 31)"
  by (simp add: np_int32_def)

lemma same_range_finite: "round64 F 0 = Fin 0 \<Longrightarrow> same_range F (Fin u) (Fin u)"
  by (simp add: same_range_def feq_def)

lemma same_range_infinite: "\<not> same_range F PInf PInf" "\<not> same_range F MInf MInf"
  by (simp_all add: same_range_def feq_def)

lemma sir_elems:
  assumes "scale_intensity_range F L (Ref a) b_max b_min a_max a_min clip s = (Inr r, s')"
    and "a < next_addr s"
    and "x = fdiv (round64 F) (fsub (round64 F) b_max b_min) (fsub (round64 F) a_max a_min)"
  shows "elems (mem s' r) =
           cast_elems L Float32 (dtype (mem s a))
             (map (\<lambda>i. if int i < np_int32 (np_prod (shape (mem s a)))
                   then scaleVolume_value F
                          (cast_elems L (dtype (mem s a)) Float32 (elems (mem s a)) ! i)
                          (np_float32 F x) (np_float32 F (scale_y F x a_min b_min))
                          (np_float32 F (lower clip b_min)) (np_float32 F (upper clip b_max))
                   else uninit L i)
               [0..<np_prod (shape (mem s a))])"
proof (rule sir_stages [OF assms])
  fix c s2 r0 s3
  assume 1: "elems (mem s2 c) = cast_elems L (dtype (mem s a)) Float32 (elems (mem s a))"
    and 2: "elems (mem s3 r0) =
       map (\<lambda>i. if int i < np_int32 (np_prod (shape (mem s a)))
                 then scaleVolume_value F (elems (mem s2 c) ! i)
                        (np_float32 F x) (np_float32 F (scale_y F x a_min b_min))
                        (np_float32 F (lower clip b_min)) (np_float32 F (upper clip b_max))
                 else uninit L i)
         [0..<np_prod (shape (mem s a))]"
    and 3: "elems (mem s' r) = cast_elems L Float32 (dtype (mem s a)) (elems (mem s3 r0))"
  show ?thesis unfolding 3 2 1 ..
qed

lemma returned_elems_Inr:
  "c = (Inr r, s') \<Longrightarrow> returned_elems c = elems (mem s' r)"
  by (simp add: returned_elems_def)

lemma ones_array_untouched:
  assumes "\<not> same_range F a_max a_min"
  shows "\<not> isl (fst (scale_intensity_range F L (Ref 0) b_max b_min a_max a_min clip
                       (store_of (ones_array (2 ^ 31)))))
         \<and> returned_elems (scale_intensity_range F L (Ref 0) b_max b_min a_max a_min clip
                       (store_of (ones_array (2 ^ 31)))) ! 0 = uninit L 0"
proof -
  let ?s = "store_of (ones_array (2 ^ 31))"
  let ?c = "scale_intensity_range F L (Ref 0) b_max b_min a_max a_min clip ?s"
  have a: "0 < next_addr ?s" by (simp add: store_of_def)
  have m: "mem ?s 0 = ones_array (2 ^ 31)" by (simp add: store_of_def)
  have t: "np_prod (shape (mem ?s 0)) = 2 ^ 31"
    by (simp add: store_of_def ones_array_def np_prod_def)
  have d: "dtype (mem ?s 0) = Float32" by (simp add: store_of_def ones_array_def)
  have ok: "location (mem ?s 0) = Host \<or> dtype (mem ?s 0) = Float32
              \<or> can_cast L (dtype (mem ?s 0)) Float32"
    using d by simp
  have lb: "launch_blocks L (gridx (np_prod (shape (mem ?s 0)))) = Inr (nat (gridx (2 ^ 31)))"
    unfolding t by (rule launch_blocks_pos) simp
  obtain r s' where c: "?c = (Inr r, s')"
    by (rule sir_succeeds [OF a assms ok lb])
  have "elems (mem s' r) ! 0 = uninit L 0"
    unfolding sir_elems [OF c a refl] d t cast_elems_same
    by (simp add: np_int32_def)
  with c show ?thesis by (simp add: returned_elems_def)
qed

section \<open>The claims\<close>

lemmas evaluation =
  scale_intensity_range_def normalize_def to_float32_def dispatch_def rehydrate_def
  cupy_asarray_def cupy_ascontiguousarray_def astype_def cupy_empty_def cupy_asnumpy_def
  alloc_def launch_scaleVolume_def launch_blocks_def scaleVolume_value_def clamp_def
  fminf_def fmaxf_def gridx_def blockx_def py_int_def np_prod_def np_float32_def np_int32_def
  same_range_def feq_def py_truediv_def scale_x_def scale_y_def lower_def upper_def
  cast_elems_def returned_elems_def
  example_fpu_def overflow_def double_0_2_def float32_0_2_def
  example_lib_def strict_lib_def int_wrap_def example_array_def store_of_def empty_array_def
  Let_def

lemma upt_3: "[0..<3] = [0, 1, 2]"
  by (simp add: eval_nat_numeral)

subsection \<open>C1\<close>

text \<open>
  Claim C1 (amended). For an input array accepted without error whose element count
  \<open>total_size\<close>, the product of the dimensions, is below \<open>2^31\<close>, and every linear index \<open>i\<close>
  below \<open>total_size\<close>: \<open>x = (b_max - b_min) / (a_max - a_min)\<close> and \<open>y = a_min*x - b_min\<close> are
  computed in doubles from the parameters as they were passed, the bounds are
  \<open>(b_min, b_max)\<close> when \<open>clip\<close> is true and (minus infinity, plus infinity) when it is
  false, all four reach the kernel converted to 32-bit floats, and the kernel's output
  buffer holds \<open>out[i] = clamp(in[i]*x - y, lower, upper)\<close>, evaluated in 32-bit floats, where
  \<open>in\<close> is the 32-bit float working copy of the input. The array returned is that buffer
  converted back to the element type of the input: the second conjunct gives its element
  \<open>i\<close> from element \<open>i\<close> of the input; for an input of 32-bit floats both conversions are
  the identity.
\<close>

theorem kernel_pass_elementwise:
  assumes "scale_intensity_range F L (Ref a) b_max b_min a_max a_min clip s = (Inr r, s')"
    and "allocated s a" and "well_formed (mem s a)"
    and "np_prod (shape (mem s a)) < 2 ^ 31"
    and "i < np_prod (shape (mem s a))"
    and "x = fdiv (round64 F) (fsub (round64 F) b_max b_min) (fsub (round64 F) a_max a_min)"
    and "y = fsub (round64 F) (fmul (round64 F) a_min x) b_min"
    and "lo = (if clip then b_min else MInf)" and "hi = (if clip then b_max else PInf)"
  shows "(\<exists>inp s2 out s3.
            dispatch F L a inp x y lo hi s2 = (Inr out, s3)
            \<and> rehydrate L (location (mem s a) = Host) a out s3 = (r, s')
            \<and> dtype (mem s2 inp) = Float32
            \<and> elems (mem s2 inp) = cast_elems L (dtype (mem s a)) Float32 (elems (mem s a))
            \<and> elems (mem s3 out) ! i =
                clamp (fsub (round32 F) (fmul (round32 F) (elems (mem s2 inp) ! i) (np_float32 F x))
                         (np_float32 F y))
                  (np_float32 F lo) (np_float32 F hi))
         \<and> elems (mem s' r) ! i =
             cast_val L Float32 (dtype (mem s a))
               (clamp (fsub (round32 F)
                         (fmul (round32 F) (cast_val L (dtype (mem s a)) Float32 (elems (mem s a) ! i))
                            (np_float32 F x))
                         (np_float32 F y))
                  (np_float32 F lo) (np_float32 F hi))"
proof -
  have a: "a < next_addr s" using assms(2) by (simp add: allocated_def)
  have len: "i < length (elems (mem s a))" using assms(3,5) by (simp add: well_formed_def)
  have y: "y = scale_y F x a_min b_min" using assms(7) by (simp add: scale_y_def)
  have lo: "lo = lower clip b_min" and hi: "hi = upper clip b_max"
    using assms(8,9) by (simp_all add: lower_def upper_def)
  have n: "int i < np_int32 (np_prod (shape (mem s a)))"
    using assms(4,5) by (simp add: np_int32_small)
  show ?thesis
  proof (rule sir_stages [OF assms(1) a assms(6)])
    fix c s2 r0 s3
    assume d: "dispatch F L a c x (scale_y F x a_min b_min) (lower clip b_min) (upper clip b_max) s2
                 = (Inr r0, s3)"
      and h: "rehydrate L (location (mem s a) = Host) a r0 s3 = (r, s')"
      and dt: "dtype (mem s2 c) = Float32"
      and el: "elems (mem s2 c) = cast_elems L (dtype (mem s a)) Float32 (elems (mem s a))"
      and ek: "elems (mem s3 r0) =
         map (\<lambda>i. if int i < np_int32 (np_prod (shape (mem s a)))
                   then scaleVolume_value F (elems (mem s2 c) ! i)
                          (np_float32 F x) (np_float32 F (scale_y F x a_min b_min))
                          (np_float32 F (lower clip b_min)) (np_float32 F (upper clip b_max))
                   else uninit L i)
           [0..<np_prod (shape (mem s a))]"
      and er: "elems (mem s' r) = cast_elems L Float32 (dtype (mem s a)) (elems (mem s3 r0))"
    have ki: "elems (mem s3 r0) ! i =
                clamp (fsub (round32 F) (fmul (round32 F) (elems (mem s2 c) ! i) (np_float32 F x))
                         (np_float32 F y))
                  (np_float32 F lo) (np_float32 F hi)"
      unfolding ek using assms(5) n by (simp add: scaleVolume_value_def y lo hi)
    have l3: "i < length (elems (mem s3 r0))" unfolding ek using assms(5) by simp
    have ci: "elems (mem s2 c) ! i = cast_val L (dtype (mem s a)) Float32 (elems (mem s a) ! i)"
      unfolding el cast_elems_map using len by simp
    have ri: "elems (mem s' r) ! i = cast_val L Float32 (dtype (mem s a)) (elems (mem s3 r0) ! i)"
      unfolding er cast_elems_map using l3 by simp
    have 1: "\<exists>inp s2 out s3.
            dispatch F L a inp x y lo hi s2 = (Inr out, s3)
            \<and> rehydrate L (location (mem s a) = Host) a out s3 = (r, s')
            \<and> dtype (mem s2 inp) = Float32
            \<and> elems (mem s2 inp) = cast_elems L (dtype (mem s a)) Float32 (elems (mem s a))
            \<and> elems (mem s3 out) ! i =
                clamp (fsub (round32 F) (fmul (round32 F) (elems (mem s2 inp) ! i) (np_float32 F x))
                         (np_float32 F y))
                  (np_float32 F lo) (np_float32 F hi)"
      using d [folded y lo hi] h dt el ki by blast
    from 1 ri [unfolded ki ci] show ?thesis by (rule conjI)
  qed
qed

theorem kernel_pass_elementwise_witness:
  "fst (scale_intensity_range example_fpu example_lib (Ref 0) (Fin 1) (Fin (- 1)) (Fin 256) (Fin 0)
          True (store_of (example_array Device Float32))) = Inr 1
   \<and> allocated (store_of (example_array Device Float32)) 0
   \<and> well_formed (mem (store_of (example_array Device Float32)) 0)
   \<and> np_prod (shape (mem (store_of (example_array Device Float32)) 0)) < 2 ^ 31
   \<and> (2::nat) < np_prod (shape (mem (store_of (example_array Device Float32)) 0))
   \<and> elems (mem (snd (scale_intensity_range example_fpu example_lib (Ref 0) (Fin 1) (Fin (- 1))
          (Fin 256) (Fin 0) True (store_of (example_array Device Float32)))) 1) ! 2
       = Fin (127 / 128)"
proof -
  let ?s = "store_of (example_array Device Float32)"
  let ?c = "scale_intensity_range example_fpu example_lib (Ref 0) (Fin 1) (Fin (- 1)) (Fin 256)
              (Fin 0) True ?s"
  have f: "fst ?c = Inr 1" by (simp add: evaluation)
  have e: "?c = (Inr 1, snd ?c)" using f by (metis prod.collapse)
  have al: "allocated ?s 0" by (simp add: allocated_def store_of_def)
  have wf: "well_formed (mem ?s 0)"
    by (simp add: well_formed_def store_of_def example_array_def np_prod_def)
  have sz: "np_prod (shape (mem ?s 0)) < 2 ^ 31"
    by (simp add: store_of_def example_array_def np_prod_def)
  have i: "(2::nat) < np_prod (shape (mem ?s 0))"
    by (simp add: store_of_def example_array_def np_prod_def)
  have "elems (mem (snd ?c) 1) ! 2 = Fin (127 / 128)"
    using kernel_pass_elementwise [OF e al wf sz i refl refl refl refl, THEN conjunct2]
    by (simp add: store_of_def example_array_def cast_val_def clamp_def fminf_def fmaxf_def
          np_float32_def example_fpu_def overflow_def double_0_2_def)
  with f al wf sz i show ?thesis by simp
qed

text \<open>
  Two calls where the output is not the value of the formula on the parameters as passed.
  With \<open>b_max = a_max = 0.2\<close>, \<open>b_min = a_min = 0\<close> and \<open>clip\<close> true, \<open>x = 1\<close>, \<open>y = 0\<close>,
  and the element 128 is clamped to the 32-bit float nearest to 0.2, which is not the
  double 0.2. With \<open>2^31\<close> elements the count reaches the kernel as \<open>-2^31\<close>: no thread
  writes, and the array returned is the uninitialised buffer.
\<close>

theorem kernel_pass_counterexample:
  "returned_elems (scale_intensity_range example_fpu example_lib (Ref 0)
       (Fin double_0_2) (Fin 0) (Fin double_0_2) (Fin 0) True
       (store_of (example_array Device Float32))) ! 1 = Fin float32_0_2
   \<and> max 0 (min (128 * ((double_0_2 - 0) / (double_0_2 - 0))
                  - (0 * ((double_0_2 - 0) / (double_0_2 - 0)) - 0)) double_0_2) = double_0_2
   \<and> float32_0_2 \<noteq> double_0_2
   \<and> \<not> isl (fst (scale_intensity_range example_fpu example_lib (Ref 0)
                  (Fin 1) (Fin 0) (Fin 1) (Fin 0) False (store_of (ones_array (2 ^ 31)))))
   \<and> returned_elems (scale_intensity_range example_fpu example_lib (Ref 0)
                  (Fin 1) (Fin 0) (Fin 1) (Fin 0) False (store_of (ones_array (2 ^ 31)))) ! 0
       = Fin 0
   \<and> 1 * ((1 - 0) / (1 - 0)) - (0 * ((1 - 0) / (1 - 0)) - 0) = (1::real)"
proof -
  have 1: "returned_elems (scale_intensity_range example_fpu example_lib (Ref 0)
       (Fin double_0_2) (Fin 0) (Fin double_0_2) (Fin 0) True
       (store_of (example_array Device Float32))) ! 1 = Fin float32_0_2"
    by (simp add: evaluation fold_threads [where n=3] upt_3)
  have 2: "max 0 (min (128 * ((double_0_2 - 0) / (double_0_2 - 0))
                  - (0 * ((double_0_2 - 0) / (double_0_2 - 0)) - 0)) double_0_2) = double_0_2"
    by (simp add: double_0_2_def)
  have 3: "float32_0_2 \<noteq> double_0_2" by (simp add: double_0_2_def float32_0_2_def)
  have n: "\<not> same_range example_fpu (Fin 1) (Fin 0)"
    by (simp add: same_range_def feq_def example_fpu_def overflow_def)
  have u: "uninit example_lib 0 = Fin 0" by (simp add: example_lib_def)
  from 1 2 3 ones_array_untouched [OF n, of example_lib "Fin 1" "Fin 0" False] u
  show ?thesis by simp
qed

subsection \<open>C2\<close>

lemma unsafe_cast_checked_on_device:
  assumes "allocated s a" and "\<not> same_range F a_max a_min"
    and "location (mem s a) = Device" and "dtype (mem s a) \<noteq> Float32"
    and "can_cast L (dtype (mem s a)) Float32 = False"
  shows "scale_intensity_range F L (Ref a) b_max b_min a_max a_min clip s =
           (Inl (ValueError Unsafe_cast), snd (cupy_ascontiguousarray a s))"
  using sir_unsafe_cast [OF _ assms(2,3,4,5)] assms(1) by (simp add: allocated_def)

text \<open>
  Claim C2. An input array whose element type is not 32-bit float and cannot be cast
  safely to it must fail with the \<open>ValueError\<close> of line 91, on the host as on the
  accelerator. The code does so on the accelerator only. Line 83 converts a host array to
  32-bit floats while copying it, so the test of line 89 finds 32-bit floats and the test
  of line 90, on the element type of \<open>img\<close>, is never reached: the host array of 64-bit
  integers below is accepted, and the same array on the accelerator is refused.
\<close>

theorem host_unsafe_cast_not_refused:
  "location (mem (store_of (example_array Host Int64)) 0) = Host
   \<and> dtype (mem (store_of (example_array Host Int64)) 0) = Int64
   \<and> can_cast example_lib Int64 Float32 = False
   \<and> fst (scale_intensity_range example_fpu example_lib (Ref 0) (Fin 1) (Fin (- 1)) (Fin 256)
            (Fin 0) True (store_of (example_array Host Int64))) = Inr 4
   \<and> fst (scale_intensity_range example_fpu example_lib (Ref 0) (Fin 1) (Fin (- 1)) (Fin 256)
            (Fin 0) True (store_of (example_array Device Int64)))
       = Inl (ValueError Unsafe_cast)"
  by (simp add: evaluation)

subsection \<open>C3\<close>

text \<open>
  Claim C3. Whenever the call returns an array, that array has the shape, the element type
  and the memory location (host or accelerator) of the input array, although the kernel
  computed in 32-bit floats on the accelerator.
\<close>

theorem result_keeps_shape_dtype_location:
  assumes "scale_intensity_range F L (Ref a) b_max b_min a_max a_min clip s = (Inr r, s')"
    and "allocated s a"
  shows "shape (mem s' r) = shape (mem s a)
         \<and> dtype (mem s' r) = dtype (mem s a)
         \<and> location (mem s' r) = location (mem s a)"
proof -
  have a: "a < next_addr s" using assms(2) by (simp add: allocated_def)
  show ?thesis
  proof (rule sir_stages [OF assms(1) a refl])
    fix c s2 r0 s3
    assume "shape (mem s' r) = shape (mem s a)"
      and "location (mem s' r) = location (mem s a)"
      and "dtype (mem s' r) = dtype (mem s a)"
    then show ?thesis by simp
  qed
qed

theorem result_keeps_shape_dtype_location_witness:
  "allocated (store_of (example_array Host UInt8)) 0
   \<and> fst (scale_intensity_range example_fpu example_lib (Ref 0) (Fin 1) (Fin (- 1)) (Fin 256)
            (Fin 0) True (store_of (example_array Host UInt8))) = Inr 4
   \<and> shape (mem (snd (scale_intensity_range example_fpu example_lib (Ref 0) (Fin 1) (Fin (- 1))
            (Fin 256) (Fin 0) True (store_of (example_array Host UInt8)))) 4) = [3]
   \<and> dtype (mem (snd (scale_intensity_range example_fpu example_lib (Ref 0) (Fin 1) (Fin (- 1))
            (Fin 256) (Fin 0) True (store_of (example_array Host UInt8)))) 4) = UInt8
   \<and> location (mem (snd (scale_intensity_range example_fpu example_lib (Ref 0) (Fin 1) (Fin (- 1))
            (Fin 256) (Fin 0) True (store_of (example_array Host UInt8)))) 4) = Host"
proof -
  let ?s = "store_of (example_array Host UInt8)"
  let ?c = "scale_intensity_range example_fpu example_lib (Ref 0) (Fin 1) (Fin (- 1)) (Fin 256)
              (Fin 0) True ?s"
  have f: "fst ?c = Inr 4" by (simp add: evaluation)
  have e: "?c = (Inr 4, snd ?c)" using f by (metis prod.collapse)
  have al: "allocated ?s 0" by (simp add: allocated_def store_of_def)
  show ?thesis
    using result_keeps_shape_dtype_location [OF e al] f al
    by (simp add: store_of_def example_array_def)
qed

subsection \<open>C4\<close>

text \<open>
  Claim C4. When \<open>a_max\<close> equals \<open>a_min\<close> the call must raise the \<open>ValueError\<close> of line 77
  before anything else. Line 76 tests the difference, \<open>a_max - a_min == 0.0\<close>. For equal
  finite values the difference is zero and the error is raised (last conjunct). For
  \<open>a_max = a_min = inf\<close> the difference is not a number, the test is false and the call
  goes on: it returns an array, or raises the \<open>TypeError\<close> for a value that is not an
  array.
\<close>

theorem infinite_same_range_not_raised:
  "same_range example_fpu PInf PInf = False
   \<and> fst (scale_intensity_range example_fpu example_lib (Ref 0) (Fin 1) (Fin 0) PInf PInf False
            (store_of (example_array Device Float32))) = Inr 1
   \<and> fst (scale_intensity_range example_fpu example_lib (PyStr ''abc'') (Fin 1) (Fin 0) PInf PInf
            False (store_of (example_array Device Float32))) = Inl (TypeError Not_an_array)
   \<and> fst (scale_intensity_range example_fpu example_lib (Ref 0) (Fin 1) (Fin 0) (Fin 2) (Fin 2)
            False (store_of (example_array Device Float32))) = Inl (ValueError Same_range)"
  by (simp add: evaluation)

subsection \<open>C5\<close>

text \<open>
  Claim C5 (amended). A value that is not an array raises the \<open>TypeError\<close> of line 85,
  whatever the other parameters are, unless the test of line 76 holds, that is unless
  \<open>a_max - a_min == 0.0\<close> in floating-point arithmetic: then the \<open>ValueError\<close> of line 77
  is raised first. In both cases the store is as it was: nothing was computed.
\<close>

theorem non_array_raises_type_error:
  assumes "\<not> is_array img"
  shows "scale_intensity_range F L img b_max b_min a_max a_min clip s =
           (if feq (fsub (round64 F) a_max a_min) (Fin 0)
            then (Inl (ValueError Same_range), s)
            else (Inl (TypeError Not_an_array), s))"
  using assms
  by (cases img)
     (simp_all add: is_array_def scale_intensity_range_def normalize_def same_range_def)

theorem non_array_raises_type_error_witness:
  "\<not> is_array (PyStr ''abc'')
   \<and> scale_intensity_range example_fpu example_lib (PyStr ''abc'') (Fin 1) (Fin 0) (Fin 2) (Fin 1)
         False (store_of (example_array Host Float32)) =
       (Inl (TypeError Not_an_array), store_of (example_array Host Float32))
   \<and> scale_intensity_range example_fpu example_lib (PyStr ''abc'') (Fin 1) (Fin 0) PInf PInf
         False (store_of (example_array Host Float32)) =
       (Inl (TypeError Not_an_array), store_of (example_array Host Float32))"
proof -
  have n: "\<not> is_array (PyStr ''abc'')" by (simp add: is_array_def)
  show ?thesis
    using non_array_raises_type_error [OF n, of example_fpu example_lib "Fin 1" "Fin 0" "Fin 2" "Fin 1"]
      non_array_raises_type_error [OF n, of example_fpu example_lib "Fin 1" "Fin 0" PInf PInf] n
    by (simp add: feq_def example_fpu_def overflow_def)
qed

text \<open>
  A string as \<open>img\<close>, with \<open>a_max = a_min = 2\<close>: the error is the \<open>ValueError\<close> of the
  range test, not the \<open>TypeError\<close>.
\<close>

theorem non_array_with_same_range_counterexample:
  "\<not> is_array (PyStr ''abc'')
   \<and> fst (scale_intensity_range example_fpu example_lib (PyStr ''abc'') (Fin 1) (Fin 0) (Fin 2)
            (Fin 2) False (store_of (example_array Host Float32))) = Inl (ValueError Same_range)
   \<and> fst (scale_intensity_range example_fpu example_lib (PyStr ''abc'') (Fin 1) (Fin 0) (Fin 2)
            (Fin 2) False (store_of (example_array Host Float32))) \<noteq> Inl (TypeError Not_an_array)"
  by (simp add: is_array_def evaluation)

subsection \<open>C6\<close>

text \<open>
  Claim C6 (amended). With \<open>clip\<close> true, for an accepted input array of fewer than \<open>2^31\<close>
  elements and bounds that are numbers, the array returned is the conversion, to the
  element type of the input, of values that all lie between the smaller and the larger of
  \<open>np.float32(b_min)\<close> and \<open>np.float32(b_max)\<close>, the bounds as the kernel receives them;
  for an input of 32-bit floats the output elements themselves lie in that interval.
\<close>

theorem clamp_law_before_cast_back:
  assumes "scale_intensity_range F L (Ref a) b_max b_min a_max a_min True s = (Inr r, s')"
    and "allocated s a"
    and "np_prod (shape (mem s a)) < 2 ^ 31"
    and "np_float32 F b_min \<noteq> NaN" and "np_float32 F b_max \<noteq> NaN"
  shows "(dtype (mem s a) = Float32 \<longrightarrow>
            (\<forall>v\<in>set (elems (mem s' r)).
               fle (fminf (np_float32 F b_min) (np_float32 F b_max)) v
               \<and> fle v (fmaxf (np_float32 F b_min) (np_float32 F b_max))))
         \<and> (\<exists>ws. elems (mem s' r) = cast_elems L Float32 (dtype (mem s a)) ws
                \<and> (\<forall>w\<in>set ws.
                      fle (fminf (np_float32 F b_min) (np_float32 F b_max)) w
                      \<and> fle w (fmaxf (np_float32 F b_min) (np_float32 F b_max))))"
proof -
  have a: "a < next_addr s" using assms(2) by (simp add: allocated_def)
  define x where
    "x = fdiv (round64 F) (fsub (round64 F) b_max b_min) (fsub (round64 F) a_max a_min)"
  let ?lo = "np_float32 F b_min" and ?hi = "np_float32 F b_max"
  let ?W = "cast_elems L (dtype (mem s a)) Float32 (elems (mem s a))"
  let ?ws = "map (\<lambda>i. scaleVolume_value F (?W ! i) (np_float32 F x)
                        (np_float32 F (scale_y F x a_min b_min)) ?lo ?hi)
               [0..<np_prod (shape (mem s a))]"
  have n: "int i < np_int32 (np_prod (shape (mem s a)))" if "i < np_prod (shape (mem s a))" for i
    using assms(3) that by (simp add: np_int32_small)
  have me: "map (\<lambda>i. if int i < np_int32 (np_prod (shape (mem s a)))
                   then scaleVolume_value F (?W ! i) (np_float32 F x)
                          (np_float32 F (scale_y F x a_min b_min))
                          (np_float32 F (lower True b_min)) (np_float32 F (upper True b_max))
                   else uninit L i)
          [0..<np_prod (shape (mem s a))] = ?ws"
    using n by (intro map_cong) (auto simp: lower_def upper_def)
  have e: "elems (mem s' r) = cast_elems L Float32 (dtype (mem s a)) ?ws"
    by (simp only: sir_elems [OF assms(1) a x_def] me)
  have w: "\<forall>w\<in>set ?ws. fle (fminf ?lo ?hi) w \<and> fle w (fmaxf ?lo ?hi)"
    using clamp_between [OF assms(4,5)] by (auto simp: scaleVolume_value_def)
  have "\<forall>v\<in>set (elems (mem s' r)). fle (fminf ?lo ?hi) v \<and> fle v (fmaxf ?lo ?hi)"
    if "dtype (mem s a) = Float32"
    using e w that by (simp add: cast_elems_same)
  with e w show ?thesis by blast
qed

theorem clamp_law_before_cast_back_witness:
  "fst (scale_intensity_range example_fpu example_lib (Ref 0) (Fin 1) (Fin (- 1)) (Fin 256) (Fin 0)
          True (store_of (example_array Device Float32))) = Inr 1
   \<and> allocated (store_of (example_array Device Float32)) 0
   \<and> np_prod (shape (mem (store_of (example_array Device Float32)) 0)) < 2 ^ 31
   \<and> np_float32 example_fpu (Fin (- 1)) = Fin (- 1)
   \<and> np_float32 example_fpu (Fin 1) = Fin 1
   \<and> dtype (mem (store_of (example_array Device Float32)) 0) = Float32
   \<and> fle (fminf (Fin (- 1)) (Fin 1))
        (elems (mem (snd (scale_intensity_range example_fpu example_lib (Ref 0) (Fin 1)
           (Fin (- 1)) (Fin 256) (Fin 0) True (store_of (example_array Device Float32)))) 1) ! 2)
   \<and> fle (elems (mem (snd (scale_intensity_range example_fpu example_lib (Ref 0) (Fin 1)
           (Fin (- 1)) (Fin 256) (Fin 0) True (store_of (example_array Device Float32)))) 1) ! 2)
        (fmaxf (Fin (- 1)) (Fin 1))"
proof -
  let ?s = "store_of (example_array Device Float32)"
  let ?c = "scale_intensity_range example_fpu example_lib (Ref 0) (Fin 1) (Fin (- 1)) (Fin 256)
              (Fin 0) True ?s"
  have f: "fst ?c = Inr 1" by (simp add: evaluation)
  have e: "?c = (Inr 1, snd ?c)" using f by (metis prod.collapse)
  have al: "allocated ?s 0" by (simp add: allocated_def store_of_def)
  have sz: "np_prod (shape (mem ?s 0)) < 2 ^ 31"
    by (simp add: store_of_def example_array_def np_prod_def)
  have lo: "np_float32 example_fpu (Fin (- 1)) = Fin (- 1)"
    and hi: "np_float32 example_fpu (Fin 1) = Fin 1"
    by (simp_all add: np_float32_def example_fpu_def overflow_def double_0_2_def)
  have t: "dtype (mem ?s 0) = Float32" by (simp add: store_of_def example_array_def)
  have l: "length (elems (mem (snd ?c) 1)) = 3"
    by (simp add: evaluation fold_threads [where n=3])
  then have m: "elems (mem (snd ?c) 1) ! 2 \<in> set (elems (mem (snd ?c) 1))" by simp
  have "\<forall>v\<in>set (elems (mem (snd ?c) 1)).
          fle (fminf (Fin (- 1)) (Fin 1)) v \<and> fle v (fmaxf (Fin (- 1)) (Fin 1))"
    using clamp_law_before_cast_back [OF e al sz, THEN conjunct1] t lo hi by simp
  with m have "fle (fminf (Fin (- 1)) (Fin 1)) (elems (mem (snd ?c) 1) ! 2)
               \<and> fle (elems (mem (snd ?c) 1) ! 2) (fmaxf (Fin (- 1)) (Fin 1))" by blast
  with f al sz lo hi t show ?thesis by blast
qed

text \<open>
  Three calls with \<open>clip\<close> true and an output element outside the interval of \<open>b_min\<close> and
  \<open>b_max\<close>. 8-bit integers scaled into [0.5, 0.75] come back as zeros: lines 118 and 119
  convert the result to the element type of the input. With \<open>b_max = 0.2\<close> an element is
  clamped to the 32-bit float nearest to 0.2, which is above the double 0.2. With \<open>2^31\<close>
  elements the kernel writes nothing and the uninitialised buffer is returned.
\<close>

theorem clamp_law_counterexample:
  "returned_elems (scale_intensity_range example_fpu example_lib (Ref 0)
       (Fin (3 / 4)) (Fin (1 / 2)) (Fin 256) (Fin 0) True
       (store_of (example_array Host UInt8))) ! 0 = Fin 0
   \<and> \<not> min (1 / 2) (3 / 4) \<le> (0::real)
   \<and> returned_elems (scale_intensity_range example_fpu example_lib (Ref 0)
       (Fin double_0_2) (Fin 0) (Fin double_0_2) (Fin 0) True
       (store_of (example_array Device Float32))) ! 1 = Fin float32_0_2
   \<and> \<not> float32_0_2 \<le> max 0 double_0_2
   \<and> \<not> isl (fst (scale_intensity_range example_fpu example_lib (Ref 0)
                  (Fin 2) (Fin 1) (Fin 1) (Fin 0) True (store_of (ones_array (2 ^ 31)))))
   \<and> returned_elems (scale_intensity_range example_fpu example_lib (Ref 0)
                  (Fin 2) (Fin 1) (Fin 1) (Fin 0) True (store_of (ones_array (2 ^ 31)))) ! 0
       = Fin 0
   \<and> \<not> min 1 2 \<le> (0::real)"
proof -
  have 1: "returned_elems (scale_intensity_range example_fpu example_lib (Ref 0)
       (Fin (3 / 4)) (Fin (1 / 2)) (Fin 256) (Fin 0) True
       (store_of (example_array Host UInt8))) ! 0 = Fin 0"
    by (simp add: evaluation fold_threads [where n=3] upt_3)
  have 2: "returned_elems (scale_intensity_range example_fpu example_lib (Ref 0)
       (Fin double_0_2) (Fin 0) (Fin double_0_2) (Fin 0) True
       (store_of (example_array Device Float32))) ! 1 = Fin float32_0_2"
    by (simp add: evaluation fold_threads [where n=3] upt_3)
  have 3: "\<not> float32_0_2 \<le> max 0 double_0_2"
    by (simp add: double_0_2_def float32_0_2_def)
  have n: "\<not> same_range example_fpu (Fin 1) (Fin 0)"
    by (simp add: same_range_def feq_def example_fpu_def overflow_def)
  have u: "uninit example_lib 0 = Fin 0" by (simp add: example_lib_def)
  from 1 2 3 ones_array_untouched [OF n, of example_lib "Fin 2" "Fin 1" True] u
  show ?thesis by simp
qed

subsection \<open>C7\<close>

text \<open>
  Claim C7 (amended). With \<open>b_max = a_max\<close>, \<open>b_min = a_min\<close> and \<open>clip\<close> false, when the
  difference \<open>a_max - a_min\<close> is finite (it does not overflow) and the array has fewer than
  \<open>2^31\<close> elements, the coefficients are \<open>x = 1\<close> and \<open>y = 0\<close>, and every element of the
  array returned whose input element is a number is that element converted to 32-bit
  float and back to the element type of the input: equal to it within the tolerance of
  that conversion, and equal to it for an input of 32-bit floats. The hypotheses on the
  rounding say that \<open>0\<close>, \<open>1\<close> and \<open>a_min\<close> are doubles, and that the element of the
  working copy is a 32-bit float.
\<close>

theorem identity_law:
  assumes "scale_intensity_range F L (Ref a) a_max a_min a_max a_min False s = (Inr r, s')"
    and "allocated s a" and "well_formed (mem s a)"
    and "np_prod (shape (mem s a)) < 2 ^ 31"
    and "fsub (round64 F) a_max a_min = Fin d"
    and "keeps_0_1 F" and "is_float64 F a_min"
    and "i < np_prod (shape (mem s a))"
    and "w = cast_val L (dtype (mem s a)) Float32 (elems (mem s a) ! i)"
    and "w \<noteq> NaN" and "is_float32 F w"
  shows "fdiv (round64 F) (fsub (round64 F) a_max a_min) (fsub (round64 F) a_max a_min) = Fin 1
         \<and> scale_y F (Fin 1) a_min a_min = Fin 0
         \<and> elems (mem s' r) ! i = cast_val L Float32 (dtype (mem s a)) w"
proof -
  have a: "a < next_addr s" using assms(2) by (simp add: allocated_def)
  have k: "round64 F 0 = Fin 0" "round64 F 1 = Fin 1" "round32 F 0 = Fin 0" "round32 F 1 = Fin 1"
    using assms(6) by (simp_all add: keeps_0_1_def)
  have "\<not> same_range F a_max a_min" using sir_accepted(1) [OF assms(1) a] .
  then have d: "d \<noteq> 0" using assms(5) by (simp add: same_range_def feq_def)
  have x: "fdiv (round64 F) (fsub (round64 F) a_max a_min) (fsub (round64 F) a_max a_min) = Fin 1"
    unfolding assms(5) using d k by simp
  obtain v where v: "a_min = Fin v"
    using assms(5) by (cases a_max; cases a_min) simp_all
  have rv: "round64 F v = Fin v" using assms(7) v by (simp add: is_float64_def)
  have y: "scale_y F (Fin 1) a_min a_min = Fin 0"
    using v rv k by (simp add: scale_y_def)
  have len: "i < length (elems (mem s a))" using assms(3,8) by (simp add: well_formed_def)
  have wi: "map (cast_val L (dtype (mem s a)) Float32) (elems (mem s a)) ! i = w"
    unfolding assms(9) using len by simp
  have val: "scaleVolume_value F w (Fin 1) (Fin 0) MInf PInf = w"
    using assms(10,11) k
    by (cases w) (simp_all add: scaleVolume_value_def is_float32_def clamp_def fminf_def fmaxf_def)
  have n: "int i < np_int32 (np_prod (shape (mem s a)))"
    using assms(4,8) by (simp add: np_int32_small)
  have "elems (mem s' r) ! i = cast_val L Float32 (dtype (mem s a)) w"
    unfolding sir_elems [OF assms(1) a x [symmetric]] cast_elems_map
    using assms(8) n wi val y k by (simp add: np_float32_def lower_def upper_def)
  with x y show ?thesis by simp
qed

theorem identity_law_witness:
  "fst (scale_intensity_range example_fpu example_lib (Ref 0) (Fin 255) (Fin 0) (Fin 255) (Fin 0)
          False (store_of (example_array Host UInt8))) = Inr 4
   \<and> allocated (store_of (example_array Host UInt8)) 0
   \<and> well_formed (mem (store_of (example_array Host UInt8)) 0)
   \<and> np_prod (shape (mem (store_of (example_array Host UInt8)) 0)) < 2 ^ 31
   \<and> fsub (round64 example_fpu) (Fin 255) (Fin 0) = Fin 255
   \<and> keeps_0_1 example_fpu \<and> is_float64 example_fpu (Fin 0)
   \<and> (1::nat) < np_prod (shape (mem (store_of (example_array Host UInt8)) 0))
   \<and> cast_val example_lib UInt8 Float32 (elems (mem (store_of (example_array Host UInt8)) 0) ! 1)
       = Fin 128
   \<and> is_float32 example_fpu (Fin 128)
   \<and> elems (mem (store_of (example_array Host UInt8)) 0) ! 1 = Fin 128
   \<and> elems (mem (snd (scale_intensity_range example_fpu example_lib (Ref 0) (Fin 255) (Fin 0)
          (Fin 255) (Fin 0) False (store_of (example_array Host UInt8)))) 4) ! 1 = Fin 128"
proof -
  let ?s = "store_of (example_array Host UInt8)"
  let ?c = "scale_intensity_range example_fpu example_lib (Ref 0) (Fin 255) (Fin 0) (Fin 255)
              (Fin 0) False ?s"
  have f: "fst ?c = Inr 4" by (simp add: evaluation)
  have e: "?c = (Inr 4, snd ?c)" using f by (metis prod.collapse)
  have al: "allocated ?s 0" by (simp add: allocated_def store_of_def)
  have wf: "well_formed (mem ?s 0)"
    by (simp add: well_formed_def store_of_def example_array_def np_prod_def)
  have sz: "np_prod (shape (mem ?s 0)) < 2 ^ 31"
    by (simp add: store_of_def example_array_def np_prod_def)
  have d: "fsub (round64 example_fpu) (Fin 255) (Fin 0) = Fin 255"
    by (simp add: example_fpu_def overflow_def)
  have k: "keeps_0_1 example_fpu"
    by (simp add: keeps_0_1_def example_fpu_def overflow_def double_0_2_def)
  have m: "is_float64 example_fpu (Fin 0)"
    by (simp add: is_float64_def example_fpu_def overflow_def)
  have i: "(1::nat) < np_prod (shape (mem ?s 0))"
    by (simp add: store_of_def example_array_def np_prod_def)
  have dt: "dtype (mem ?s 0) = UInt8" by (simp add: store_of_def example_array_def)
  have el: "elems (mem ?s 0) ! 1 = Fin 128" by (simp add: store_of_def example_array_def)
  have w: "cast_val example_lib UInt8 Float32 (elems (mem ?s 0) ! 1) = Fin 128"
    unfolding el by (simp add: cast_val_def example_lib_def)
  have w': "Fin 128 = cast_val example_lib (dtype (mem ?s 0)) Float32 (elems (mem ?s 0) ! 1)"
    unfolding dt w ..
  have nn: "Fin 128 \<noteq> NaN" by simp
  have i32: "is_float32 example_fpu (Fin 128)"
    by (simp add: is_float32_def example_fpu_def overflow_def double_0_2_def)
  have b: "cast_val example_lib Float32 UInt8 (Fin 128) = Fin 128"
    by (simp add: cast_val_def example_lib_def int_wrap_def py_int_def)
  have "elems (mem (snd ?c) 4) ! 1 = Fin 128"
    using identity_law [OF e al wf sz d k m i w' nn i32, THEN conjunct2, THEN conjunct2]
    unfolding dt b .
  with f al wf sz d k m i w i32 el show ?thesis by simp
qed

text \<open>
  Two calls of this form that do not return the input. With \<open>a_max = 2^1023\<close> and
  \<open>a_min = -2^1023\<close> the difference overflows to infinity and \<open>x\<close> is not a number. With
  \<open>2^31\<close> elements the kernel writes nothing and the uninitialised buffer is returned.
\<close>

theorem identity_law_counterexample:
  "fsub (round64 example_fpu) (Fin (2 ^ 1023)) (Fin (- (2 ^ 1023))) = PInf
   \<and> fdiv (round64 example_fpu)
        (fsub (round64 example_fpu) (Fin (2 ^ 1023)) (Fin (- (2 ^ 1023))))
        (fsub (round64 example_fpu) (Fin (2 ^ 1023)) (Fin (- (2 ^ 1023)))) = NaN
   \<and> fst (scale_intensity_range example_fpu example_lib (Ref 0)
           (Fin (2 ^ 1023)) (Fin (- (2 ^ 1023))) (Fin (2 ^ 1023)) (Fin (- (2 ^ 1023))) False
           (store_of (example_array Device Float32))) = Inr 1
   \<and> returned_elems (scale_intensity_range example_fpu example_lib (Ref 0)
           (Fin (2 ^ 1023)) (Fin (- (2 ^ 1023))) (Fin (2 ^ 1023)) (Fin (- (2 ^ 1023))) False
           (store_of (example_array Device Float32)))
       \<noteq> elems (example_array Device Float32)
   \<and> \<not> isl (fst (scale_intensity_range example_fpu example_lib (Ref 0)
                  (Fin 1) (Fin 0) (Fin 1) (Fin 0) False (store_of (ones_array (2 ^ 31)))))
   \<and> returned_elems (scale_intensity_range example_fpu example_lib (Ref 0)
                  (Fin 1) (Fin 0) (Fin 1) (Fin 0) False (store_of (ones_array (2 ^ 31)))) ! 0
       = Fin 0
   \<and> elems (ones_array (2 ^ 31)) ! 0 = Fin 1"
proof -
  have 1: "fsub (round64 example_fpu) (Fin (2 ^ 1023)) (Fin (- (2 ^ 1023))) = PInf"
    by (simp add: example_fpu_def overflow_def)
  have 2: "fdiv (round64 example_fpu)
        (fsub (round64 example_fpu) (Fin (2 ^ 1023)) (Fin (- (2 ^ 1023))))
        (fsub (round64 example_fpu) (Fin (2 ^ 1023)) (Fin (- (2 ^ 1023)))) = NaN"
    unfolding 1 by simp
  have 3: "fst (scale_intensity_range example_fpu example_lib (Ref 0)
           (Fin (2 ^ 1023)) (Fin (- (2 ^ 1023))) (Fin (2 ^ 1023)) (Fin (- (2 ^ 1023))) False
           (store_of (example_array Device Float32))) = Inr 1"
    by (simp add: evaluation)
  have 4: "returned_elems (scale_intensity_range example_fpu example_lib (Ref 0)
           (Fin (2 ^ 1023)) (Fin (- (2 ^ 1023))) (Fin (2 ^ 1023)) (Fin (- (2 ^ 1023))) False
           (store_of (example_array Device Float32)))
       \<noteq> elems (example_array Device Float32)"
    by (simp add: evaluation fold_threads [where n=3] upt_3)
  have n: "\<not> same_range example_fpu (Fin 1) (Fin 0)"
    by (simp add: same_range_def feq_def example_fpu_def overflow_def)
  have u: "uninit example_lib 0 = Fin 0" by (simp add: example_lib_def)
  have o: "elems (ones_array (2 ^ 31)) ! 0 = Fin 1" by (simp add: ones_array_def)
  from 1 2 3 4 o ones_array_untouched [OF n, of example_lib "Fin 1" "Fin 0" False] u
  show ?thesis by simp
qed

subsection \<open>C8\<close>

text \<open>
  Claim C8. The launch is one-dimensional, with a block of 128 threads and a grid of
  \<open>ceil(total_size / 128)\<close> blocks, where \<open>total_size\<close> is the product of all the
  dimensions of the shape; \<open>dispatch\<close> launches the kernel with exactly these numbers.
\<close>

theorem launch_geometry:
  "blockx = 128
   \<and> gridx (np_prod sh) = \<lceil>real (prod_list sh) / 128\<rceil>
   \<and> dispatch F L a c x y lo hi s =
       (case cupy_empty L (shape (mem s a)) (dtype (mem s c)) s of
          (result, s1) \<Rightarrow>
            (case launch_scaleVolume F L \<lceil>real (prod_list (shape (mem s a))) / 128\<rceil> 128
                    c result (np_float32 F x) (np_float32 F y) (np_float32 F lo) (np_float32 F hi)
                    (np_int32 (prod_list (shape (mem s a)))) s1 of
               (Inl e, s2) \<Rightarrow> (Inl e, s2)
             | (Inr u, s2) \<Rightarrow> (Inr result, s2)))"
proof -
  have "gridx (np_prod sh) = \<lceil>real (prod_list sh) / 128\<rceil>" for sh
    by (simp add: gridx_ceiling np_prod_def)
  then show ?thesis
    by (simp add: dispatch_def Let_def blockx_def np_prod_def split: prod.splits)
qed

subsection \<open>C9\<close>

text \<open>
  Claim C9. In every call, failing or not, every object that existed before the call
  (the input array among them) is unchanged after it: content, element type, shape and
  location. The array returned is at an address that was not in use before the call, so
  it is newly allocated and is not the input buffer.
\<close>

theorem input_kept_output_fresh:
  assumes "scale_intensity_range F L img b_max b_min a_max a_min clip s = (res, s')"
  shows "(\<forall>b. allocated s b \<longrightarrow> mem s' b = mem s b)
         \<and> (\<forall>r. res = Inr r \<longrightarrow> \<not> allocated s r \<and> allocated s' r)"
proof -
  have "extends s s'" using assms by (rule sir_extends)
  then have "\<forall>b. allocated s b \<longrightarrow> mem s' b = mem s b"
    by (simp add: extends_def allocated_def)
  moreover have "\<not> allocated s r \<and> allocated s' r" if "res = Inr r" for r
    using sir_fresh [of F L img b_max b_min a_max a_min clip s r s'] assms that
    by (simp add: allocated_def)
  ultimately show ?thesis by blast
qed

theorem input_kept_output_fresh_witness:
  "allocated (store_of (example_array Host UInt8)) 0
   \<and> fst (scale_intensity_range example_fpu example_lib (Ref 0) (Fin 1) (Fin (- 1)) (Fin 256)
            (Fin 0) True (store_of (example_array Host UInt8))) = Inr 4
   \<and> mem (snd (scale_intensity_range example_fpu example_lib (Ref 0) (Fin 1) (Fin (- 1)) (Fin 256)
            (Fin 0) True (store_of (example_array Host UInt8)))) 0 = example_array Host UInt8
   \<and> \<not> allocated (store_of (example_array Host UInt8)) 4
   \<and> allocated (snd (scale_intensity_range example_fpu example_lib (Ref 0) (Fin 1) (Fin (- 1))
            (Fin 256) (Fin 0) True (store_of (example_array Host UInt8)))) 4"
proof -
  let ?s = "store_of (example_array Host UInt8)"
  let ?c = "scale_intensity_range example_fpu example_lib (Ref 0) (Fin 1) (Fin (- 1)) (Fin 256)
              (Fin 0) True ?s"
  have f: "fst ?c = Inr 4" by (simp add: evaluation)
  have e: "?c = (Inr 4, snd ?c)" using f by (metis prod.collapse)
  have al: "allocated ?s 0" by (simp add: allocated_def store_of_def)
  have m: "mem ?s 0 = example_array Host UInt8" by (simp add: store_of_def)
  show ?thesis
    using input_kept_output_fresh [OF e] f al m by auto
qed

subsection \<open>C10\<close>

text \<open>
  Claim C10 (amended). For an array that is valid but for a dimension that is zero, the
  element count is 0 and line 109 computes a grid width of 0. What follows is the
  launcher's decision: if it refuses a grid of width zero the call raises the launcher's
  error; if it launches some blocks instead, no thread writes and the call returns an
  empty array with the shape, the element type and the location of the input.
\<close>

theorem empty_array_launch:
  assumes "allocated s a" and "\<not> same_range F a_max a_min"
    and "location (mem s a) = Host \<or> dtype (mem s a) = Float32
           \<or> can_cast L (dtype (mem s a)) Float32"
    and "0 \<in> set (shape (mem s a))"
  shows "np_prod (shape (mem s a)) = 0
         \<and> gridx (np_prod (shape (mem s a))) = 0
         \<and> (\<forall>e. zero_grid L = Inl e \<longrightarrow>
               fst (scale_intensity_range F L (Ref a) b_max b_min a_max a_min clip s) = Inl e)
         \<and> (\<forall>k. zero_grid L = Inr k \<longrightarrow>
               (\<exists>r s'. scale_intensity_range F L (Ref a) b_max b_min a_max a_min clip s
                          = (Inr r, s')
                  \<and> shape (mem s' r) = shape (mem s a)
                  \<and> dtype (mem s' r) = dtype (mem s a)
                  \<and> location (mem s' r) = location (mem s a)
                  \<and> elems (mem s' r) = []))"
proof -
  have a: "a < next_addr s" using assms(1) by (simp add: allocated_def)
  have z: "np_prod (shape (mem s a)) = 0"
    using assms(4) by (simp add: np_prod_def prod_list_zero_iff)
  have g: "gridx 0 = 0" by (simp add: gridx_div)
  have lb: "launch_blocks L (gridx (np_prod (shape (mem s a)))) = zero_grid L"
    unfolding z by (rule launch_blocks_zero)
  have 1: "fst (scale_intensity_range F L (Ref a) b_max b_min a_max a_min clip s) = Inl e"
    if "zero_grid L = Inl e" for e
    using sir_refused [OF a assms(2,3), of e b_max b_min clip] lb that by simp
  have 2: "\<exists>r s'. scale_intensity_range F L (Ref a) b_max b_min a_max a_min clip s = (Inr r, s')
                  \<and> shape (mem s' r) = shape (mem s a)
                  \<and> dtype (mem s' r) = dtype (mem s a)
                  \<and> location (mem s' r) = location (mem s a)
                  \<and> elems (mem s' r) = []"
    if "zero_grid L = Inr k" for k
  proof -
    have lk: "launch_blocks L (gridx (np_prod (shape (mem s a)))) = Inr k"
      using lb that by simp
    obtain r s' where c: "scale_intensity_range F L (Ref a) b_max b_min a_max a_min clip s = (Inr r, s')"
      by (rule sir_succeeds [OF a assms(2,3) lk])
    have e: "elems (mem s' r) = []"
      unfolding sir_elems [OF c a refl] z by (simp add: cast_elems_def)
    have "shape (mem s' r) = shape (mem s a) \<and> dtype (mem s' r) = dtype (mem s a)
            \<and> location (mem s' r) = location (mem s a)"
    proof (rule sir_stages [OF c a refl])
      fix c s2 r0 s3
      assume "shape (mem s' r) = shape (mem s a)"
        and "location (mem s' r) = location (mem s a)"
        and "dtype (mem s' r) = dtype (mem s a)"
      then show ?thesis by simp
    qed
    with c e show ?thesis by blast
  qed
  from z g 1 2 show ?thesis by simp
qed

theorem empty_array_launch_witness:
  "allocated (store_of empty_array) 0
   \<and> \<not> same_range example_fpu (Fin 1) (Fin 0)
   \<and> dtype (mem (store_of empty_array) 0) = Float32
   \<and> 0 \<in> set (shape (mem (store_of empty_array) 0))
   \<and> gridx (np_prod (shape (mem (store_of empty_array) 0))) = 0
   \<and> zero_grid strict_lib = Inl LaunchError
   \<and> fst (scale_intensity_range example_fpu strict_lib (Ref 0) (Fin 1) (Fin 0) (Fin 1) (Fin 0)
            False (store_of empty_array)) = Inl LaunchError
   \<and> zero_grid example_lib = Inr 1
   \<and> \<not> isl (fst (scale_intensity_range example_fpu example_lib (Ref 0) (Fin 1) (Fin 0) (Fin 1)
                  (Fin 0) False (store_of empty_array)))"
proof -
  let ?s = "store_of empty_array"
  have al: "allocated ?s 0" by (simp add: allocated_def store_of_def)
  have n: "\<not> same_range example_fpu (Fin 1) (Fin 0)"
    by (simp add: same_range_def feq_def example_fpu_def overflow_def)
  have t: "dtype (mem ?s 0) = Float32" by (simp add: store_of_def empty_array_def)
  have c: "location (mem ?s 0) = Host \<or> dtype (mem ?s 0) = Float32
           \<or> can_cast L (dtype (mem ?s 0)) Float32" for L using t by simp
  have z: "0 \<in> set (shape (mem ?s 0))" by (simp add: store_of_def empty_array_def)
  have g: "zero_grid strict_lib = Inl LaunchError" by (simp add: strict_lib_def)
  have g': "zero_grid example_lib = Inr 1" by (simp add: example_lib_def)
  have 1: "gridx (np_prod (shape (mem ?s 0))) = 0
        \<and> fst (scale_intensity_range example_fpu strict_lib (Ref 0) (Fin 1) (Fin 0) (Fin 1) (Fin 0)
            False ?s) = Inl LaunchError"
    using empty_array_launch [OF al n c z, of strict_lib "Fin 1" "Fin 0" False] g by blast
  have "\<exists>r s'. scale_intensity_range example_fpu example_lib (Ref 0) (Fin 1) (Fin 0) (Fin 1)
                  (Fin 0) False ?s = (Inr r, s')"
    using empty_array_launch [OF al n c z, of example_lib "Fin 1" "Fin 0" False] g' by blast
  then have 2: "\<not> isl (fst (scale_intensity_range example_fpu example_lib (Ref 0) (Fin 1) (Fin 0)
                  (Fin 1) (Fin 0) False ?s))"
    by auto
  from al n t z g g' 1 2 show ?thesis by blast
qed

text \<open>
  With a launcher that raises a grid width of zero to one block, the array of shape
  \<open>(2, 0, 4)\<close> is accepted and an empty array of that shape is returned.
\<close>

theorem empty_array_returned_counterexample:
  "0 \<in> set (shape (mem (store_of empty_array) 0))
   \<and> gridx (np_prod (shape (mem (store_of empty_array) 0))) = 0
   \<and> fst (scale_intensity_range example_fpu example_lib (Ref 0) (Fin 1) (Fin 0) (Fin 1) (Fin 0)
            False (store_of empty_array)) = Inr 1
   \<and> shape (mem (snd (scale_intensity_range example_fpu example_lib (Ref 0) (Fin 1) (Fin 0)
            (Fin 1) (Fin 0) False (store_of empty_array))) 1) = [2, 0, 4]
   \<and> elems (mem (snd (scale_intensity_range example_fpu example_lib (Ref 0) (Fin 1) (Fin 0)
            (Fin 1) (Fin 0) False (store_of empty_array))) 1) = []"
  by (simp add: evaluation fold_threads [where n=0])

end
